theory Spec2Isabelle
  imports Complex_Main "HOL-Library.Word" "HOL-Library.Sublist" "HOL-Library.Code_Target_Numeral"
begin

section \<open>Strings of the program\<close>

text \<open>
  A JavaScript string is a sequence of 16-bit code units, and \<open>length\<close>, \<open>trim\<close> and a
  regular expression without the \<open>u\<close> flag all work on code units. String literals of
  the source are written \<open>js ''...''\<close>.
\<close>

type_synonym jschar = "16 word"
type_synonym jsstring = "jschar list"

definition js :: "string \<Rightarrow> jsstring" where
  "js s = map of_char s"

text \<open>
  White space as \<open>String.prototype.trim\<close> and the class \<open>\s\<close> see it: the code units
  of WhiteSpace and LineTerminator (TAB, LF, VT, FF, CR, SP, NBSP, U+1680, U+2000 to
  U+200A, U+2028, U+2029, U+202F, U+205F, U+3000, U+FEFF).
\<close>

definition is_space :: "jschar \<Rightarrow> bool" where
  "is_space c \<longleftrightarrow>
     (let n = unat c in
        (9 \<le> n \<and> n \<le> 13) \<or> n = 32 \<or> n = 160 \<or> n = 5760 \<or> (8192 \<le> n \<and> n \<le> 8202) \<or>
        n = 8232 \<or> n = 8233 \<or> n = 8239 \<or> n = 8287 \<or> n = 12288 \<or> n = 65279)"

text \<open>The class \<open>\d\<close>: the ten ASCII digits.\<close>

definition is_digit :: "jschar \<Rightarrow> bool" where
  "is_digit c \<longleftrightarrow> (let n = unat c in 48 \<le> n \<and> n \<le> 57)"

text \<open>The class \<open>[a-zA-Z]\<close>.\<close>

definition is_letter :: "jschar \<Rightarrow> bool" where
  "is_letter c \<longleftrightarrow> (let n = unat c in (65 \<le> n \<and> n \<le> 90) \<or> (97 \<le> n \<and> n \<le> 122))"

definition trim :: "jsstring \<Rightarrow> jsstring" where
  "trim s = rev (dropWhile is_space (rev (dropWhile is_space s)))"

section \<open>Validation functions\<close>

text \<open>\<open>/^[a-zA-Z\s]+$/\<close>: one or more code units, each a letter or white space.\<close>

definition re_letters_spaces :: "jsstring \<Rightarrow> bool" where
  "re_letters_spaces s \<longleftrightarrow> s \<noteq> [] \<and> list_all (\<lambda>c. is_letter c \<or> is_space c) s"

text \<open>\<open>/^\d+$/\<close>: one or more digits.\<close>

definition re_digits :: "jsstring \<Rightarrow> bool" where
  "re_digits s \<longleftrightarrow> s \<noteq> [] \<and> list_all is_digit s"

text \<open>
  \<open>/^[^\s@]+@[^\s@]+\.[^\s@]+$/\<close>. The class \<open>[^\s@]\<close> excludes the at sign, so the
  first group is the whole prefix before the first code unit outside the class, which
  has to be the at sign; the rest has to lie in the class and to hold a dot that is
  neither its first nor its last code unit.
\<close>

definition email_unit :: "jschar \<Rightarrow> bool" where
  "email_unit c \<longleftrightarrow> \<not> is_space c \<and> c \<noteq> 64"

definition re_email :: "jsstring \<Rightarrow> bool" where
  "re_email s \<longleftrightarrow>
     (let local = takeWhile email_unit s; rest = dropWhile email_unit s
      in local \<noteq> [] \<and>
         (case rest of
            [] \<Rightarrow> False
          | c # host \<Rightarrow> c = 64 \<and> list_all email_unit host \<and> 46 \<in> set (butlast (tl host))))"

definition validateName :: "jsstring \<Rightarrow> jsstring" where
  "validateName name =
     (if trim name = [] then js ''Name is required''
      else if \<not> re_letters_spaces (trim name) then js ''Name must have letters and spaces only''
      else [])"

definition validateSID :: "jsstring \<Rightarrow> jsstring" where
  "validateSID sid =
     (if trim sid = [] then js ''Student ID is required''
      else if \<not> re_digits (trim sid) then js ''Student ID must be numeric''
      else [])"

definition validateEmail :: "jsstring \<Rightarrow> jsstring" where
  "validateEmail email =
     (if trim email = [] then js ''Email is required''
      else if \<not> re_email (trim email) then js ''Enter a valid email''
      else [])"

text \<open>
  The source declares \<open>validateContact\<close> twice. Function declarations are hoisted and
  the later one replaces the earlier one for the whole script, so the submit handler
  calls the second declaration; the first one is never called.
\<close>

definition validateContact_shadowed :: "jsstring \<Rightarrow> jsstring" where
  "validateContact_shadowed contact =
     (if trim contact = [] then js ''Contact is required''
      else if \<not> re_digits (trim contact) then js ''Contact must be numeric''
      else if length (trim contact) < 10 then js ''Contact must be at least 10 digits''
      else [])"

definition validateContact :: "jsstring \<Rightarrow> jsstring" where
  "validateContact contact =
     (if trim contact = [] then js ''Contact number is required''
      else if length (trim contact) \<noteq> 10 then js ''Contact number must be exactly 10 digits''
      else [])"

section \<open>Values and records\<close>

text \<open>
  The roster is whatever array \<open>JSON.parse\<close> returned at start-up, extended by the
  objects the program builds, so its elements are JavaScript values. Numbers are never
  inspected by the program; they are carried as they are. An object lists its keys in
  insertion order; a key occurs once.
\<close>

datatype jsnumber = Finite rat | NegZero | PosInfinity | NegInfinity | NaN

datatype jsval =
    JUndefined
  | JNull
  | JBool bool
  | JNum jsnumber
  | JStr jsstring
  | JArr "jsval list"
  | JObj "(jsstring \<times> jsval) list"

datatype error = TypeError | SyntaxError

text \<open>
  Reading one of the properties \<open>id\<close>, \<open>name\<close>, \<open>sid\<close>, \<open>email\<close>, \<open>contact\<close>:
  a \<open>TypeError\<close> on \<open>null\<close> and \<open>undefined\<close>, the stored value on an object that has
  the key, \<open>undefined\<close> on every other value (none of the five names is a property of a
  string, a number, a boolean, an array or of \<open>Object.prototype\<close>).
\<close>

fun getprop :: "jsval \<Rightarrow> jsstring \<Rightarrow> error + jsval" where
  "getprop JUndefined k = Inl TypeError"
| "getprop JNull k = Inl TypeError"
| "getprop (JObj kvs) k = Inr (case map_of kvs k of None \<Rightarrow> JUndefined | Some v \<Rightarrow> v)"
| "getprop v k = Inr JUndefined"

definition nullish :: "jsval \<Rightarrow> bool" where
  "nullish v \<longleftrightarrow> v = JNull \<or> v = JUndefined"

text \<open>The property as a value, for an element already known not to be nullish.\<close>

definition field_of :: "jsval \<Rightarrow> jsstring \<Rightarrow> jsval" where
  "field_of v k = (case getprop v k of Inl e \<Rightarrow> JUndefined | Inr x \<Rightarrow> x)"

text \<open>
  Conversion to a string, as \<open>String(v)\<close>, a template literal and the assignment to
  \<open>input.value\<close> perform it, throws a \<open>TypeError\<close> on some values that \<open>JSON.parse\<close> can
  return. An object is converted by its \<open>toString\<close> method: a parsed object with a key
  \<open>toString\<close> hides the method of \<open>Object.prototype\<close> behind a value that cannot be
  called, and its \<open>valueOf\<close> is either hidden in the same way or returns the object, so
  the conversion throws; without that key the result is \<open>[object Object]\<close>. An array is
  converted by \<open>join\<close>, which writes \<open>null\<close> and \<open>undefined\<close> elements as the empty string
  and converts every other element. Every other value converts.
\<close>

fun convertible :: "jsval \<Rightarrow> bool" where
  "convertible (JObj kvs) = (map_of kvs (js ''toString'') = None)"
| "convertible (JArr xs) = list_all (\<lambda>e. nullish e \<or> convertible e) xs"
| "convertible v = True"

text \<open>
  An element that \<open>renderStudents\<close> can turn into a table row: reading its properties
  does not throw, and \<open>escapeHtml(s.name)\<close>, \<open>escapeHtml(s.sid)\<close>, \<open>escapeHtml(s.email)\<close>,
  \<open>escapeHtml(s.contact)\<close> and \<open>${s.id}\<close> can convert their value (a missing property is
  \<open>undefined\<close>, which converts).
\<close>

definition displayable :: "jsval \<Rightarrow> bool" where
  "displayable s \<longleftrightarrow>
     \<not> nullish s \<and> convertible (field_of s (js ''name'')) \<and> convertible (field_of s (js ''sid'')) \<and>
     convertible (field_of s (js ''email'')) \<and> convertible (field_of s (js ''contact'')) \<and>
     convertible (field_of s (js ''id''))"

text \<open>
  The object \<open>{ name, sid, email, contact }\<close> that the submit handler passes to
  \<open>addStudent\<close> and \<open>updateStudent\<close>: four trimmed strings.
\<close>

record formdata =
  data_name :: jsstring
  data_sid :: jsstring
  data_email :: jsstring
  data_contact :: jsstring

text \<open>The object \<open>{ id, ...data }\<close>.\<close>

definition mk_record :: "jsstring \<Rightarrow> formdata \<Rightarrow> jsval" where
  "mk_record i d =
     JObj [(js ''id'', JStr i), (js ''name'', JStr (data_name d)), (js ''sid'', JStr (data_sid d)),
           (js ''email'', JStr (data_email d)), (js ''contact'', JStr (data_contact d))]"

section \<open>Platform and program state\<close>

text \<open>
  Library functions of the browser the program calls and does not define:
  \<open>JSON.parse\<close> (\<open>None\<close> when it throws a \<open>SyntaxError\<close>), \<open>JSON.stringify\<close>, and
  the conversion to a string that assigning to \<open>input.value\<close> performs.
\<close>

record platform =
  json_parse :: "jsstring \<Rightarrow> jsval option"
  json_stringify :: "jsval \<Rightarrow> jsstring"
  to_string :: "jsval \<Rightarrow> jsstring"

text \<open>
  What the program leaves behind outside its own variables: a write to the storage
  slot, and a completed run of \<open>renderStudents\<close> on a given roster.
\<close>

datatype effect = SetItem jsstring jsstring | Rendered "jsval list"

text \<open>
  The variables \<open>students\<close> and \<open>editingId\<close>, the value of the four inputs, the text of
  the four error elements and of the save button, the local storage, and the trace of
  effects so far.
\<close>

record state =
  students :: "jsval list"
  editingId :: "jsstring option"
  nameInput :: jsstring
  sidInput :: jsstring
  emailInput :: jsstring
  contactInput :: jsstring
  errName :: jsstring
  errSid :: jsstring
  errEmail :: jsstring
  errContact :: jsstring
  saveBtn :: jsstring
  localStorage :: "jsstring \<rightharpoonup> jsstring"
  effects :: "effect list"

text \<open>
  A handler either returns or ends with an uncaught exception; in both cases the
  assignments it has made so far stay.
\<close>

datatype result = Returned state | Threw error state

fun state_of :: "result \<Rightarrow> state" where
  "state_of (Returned st) = st"
| "state_of (Threw e st) = st"

fun returned :: "result \<Rightarrow> bool" where
  "returned (Returned st) = True"
| "returned (Threw e st) = False"

definition STORAGE_KEY :: jsstring where
  "STORAGE_KEY = js ''student_registration_v1''"

definition showErrors :: "jsstring \<Rightarrow> jsstring \<Rightarrow> jsstring \<Rightarrow> jsstring \<Rightarrow> state \<Rightarrow> state" where
  "showErrors en es ee ec st = st\<lparr>errName := en, errSid := es, errEmail := ee, errContact := ec\<rparr>"

text \<open>
  \<open>studentForm.reset()\<close> gives the four inputs their default value. The markup of the
  page is not among the sources; the inputs are taken to have no \<open>value\<close> attribute,
  so that the default is the empty string.
\<close>

definition clearForm :: "state \<Rightarrow> state" where
  "clearForm st =
     (showErrors [] [] [] [] (st\<lparr>nameInput := [], sidInput := [], emailInput := [], contactInput := []\<rparr>))
       \<lparr>editingId := None, saveBtn := js ''Save''\<rparr>"

section \<open>Persistence\<close>

text \<open>The body of the \<open>try\<close> block.\<close>

definition loadFromStorage_try :: "platform \<Rightarrow> state \<Rightarrow> error + jsval list" where
  "loadFromStorage_try P st =
     (case localStorage st STORAGE_KEY of
        None \<Rightarrow> Inr []
      | Some raw \<Rightarrow>
          if raw = [] then Inr []
          else (case json_parse P raw of
                  None \<Rightarrow> Inl SyntaxError
                | Some (JArr xs) \<Rightarrow> Inr xs
                | Some v \<Rightarrow> Inr []))"

text \<open>The \<open>catch\<close> clause logs to the console and returns the empty array.\<close>

definition loadFromStorage :: "platform \<Rightarrow> state \<Rightarrow> jsval list" where
  "loadFromStorage P st = (case loadFromStorage_try P st of Inl e \<Rightarrow> [] | Inr xs \<Rightarrow> xs)"

text \<open>
  \<open>localStorage.setItem\<close> replaces the text of the slot; the write is taken to succeed
  (no quota).
\<close>

definition saveToStorage :: "platform \<Rightarrow> jsval list \<Rightarrow> state \<Rightarrow> state" where
  "saveToStorage P list st =
     st\<lparr>localStorage := (localStorage st)(STORAGE_KEY \<mapsto> json_stringify P (JArr list)),
        effects := effects st @ [SetItem STORAGE_KEY (json_stringify P (JArr list))]\<rparr>"

section \<open>Rendering\<close>

text \<open>
  \<open>renderStudents\<close> reads \<open>s.name\<close>, \<open>s.sid\<close>, \<open>s.email\<close>, \<open>s.contact\<close> and \<open>s.id\<close> of
  every element in order and converts each of them to a string, so it throws a
  \<open>TypeError\<close> on a roster with an element that is nullish or has such a field that
  does not convert; otherwise it rebuilds the table from the roster. The trace records
  the completed renderings only, not the rows that were built before an exception.
\<close>

definition renderStudents :: "state \<Rightarrow> result" where
  "renderStudents st =
     (if list_all displayable (students st)
      then Returned (st\<lparr>effects := effects st @ [Rendered (students st)]\<rparr>)
      else Threw TypeError st)"

section \<open>CRUD functions\<close>

text \<open>
  \<open>Date.now().toString(36)\<close>: the time in milliseconds is an integer, written in base
  36 with the digits \<open>0\<close> to \<open>9\<close> and \<open>a\<close> to \<open>z\<close> and a minus sign when negative.
\<close>

definition digit36 :: "nat \<Rightarrow> jschar" where
  "digit36 d = (if d < 10 then of_nat (48 + d) else of_nat (87 + d))"

function digits36 :: "nat \<Rightarrow> jsstring" where
  "digits36 n = (if n < 36 then [digit36 n] else digits36 (n div 36) @ [digit36 (n mod 36)])"
  by pat_completeness auto
termination
  by (relation "measure id") auto

declare digits36.simps [simp del]

definition toString36 :: "int \<Rightarrow> jsstring" where
  "toString36 t = (if t < 0 then 45 # digits36 (nat (- t)) else digits36 (nat t))"

text \<open>
  The id of a new record. \<open>now\<close> is the value of \<open>Date.now()\<close> and \<open>rnd\<close> the string
  \<open>Math.random().toString(36)\<close>, both given by the environment; \<open>slice(2,7)\<close> keeps the
  code units at the indices 2 to 6.
\<close>

definition new_id :: "int \<Rightarrow> jsstring \<Rightarrow> jsstring" where
  "new_id now rnd = toString36 now @ take 5 (drop 2 rnd)"

definition addStudent :: "platform \<Rightarrow> int \<Rightarrow> jsstring \<Rightarrow> formdata \<Rightarrow> state \<Rightarrow> result" where
  "addStudent P now rnd d st =
     (let st1 = st\<lparr>students := students st @ [mk_record (new_id now rnd) d]\<rparr>
      in renderStudents (saveToStorage P (students st1) st1))"

text \<open>
  \<open>students.find(s => s.id === id)\<close>: the first element whose \<open>id\<close> is the string
  \<open>id\<close>; the callback throws on a nullish element met before that.
\<close>

fun find_id :: "jsval list \<Rightarrow> jsstring \<Rightarrow> error + jsval option" where
  "find_id [] i = Inr None"
| "find_id (s # ss) i =
     (case getprop s (js ''id'') of
        Inl e \<Rightarrow> Inl e
      | Inr v \<Rightarrow> if v = JStr i then Inr (Some s) else find_id ss i)"

text \<open>\<open>students.findIndex(s => s.id === id)\<close>, with \<open>None\<close> for \<open>-1\<close>.\<close>

fun findIndex_id :: "jsval list \<Rightarrow> jsstring \<Rightarrow> error + nat option" where
  "findIndex_id [] i = Inr None"
| "findIndex_id (s # ss) i =
     (case getprop s (js ''id'') of
        Inl e \<Rightarrow> Inl e
      | Inr v \<Rightarrow>
          if v = JStr i then Inr (Some 0)
          else (case findIndex_id ss i of
                  Inl e \<Rightarrow> Inl e
                | Inr None \<Rightarrow> Inr None
                | Inr (Some k) \<Rightarrow> Inr (Some (Suc k))))"

text \<open>\<open>students.filter(s => s.id !== id)\<close>: the callback runs on every element.\<close>

fun filter_not_id :: "jsval list \<Rightarrow> jsstring \<Rightarrow> error + jsval list" where
  "filter_not_id [] i = Inr []"
| "filter_not_id (s # ss) i =
     (case getprop s (js ''id'') of
        Inl e \<Rightarrow> Inl e
      | Inr v \<Rightarrow>
          (case filter_not_id ss i of
             Inl e \<Rightarrow> Inl e
           | Inr rest \<Rightarrow> Inr (if v \<noteq> JStr i then s # rest else rest)))"

text \<open>The value of \<open>editingId\<close>: \<open>null\<close> or a string.\<close>

definition editing_val :: "jsstring option \<Rightarrow> jsval" where
  "editing_val e = (case e of None \<Rightarrow> JNull | Some i \<Rightarrow> JStr i)"

text \<open>
  \<open>students.some(s => s.sid === sid && s.id !== editingId)\<close>: stops at the first element
  for which the callback is true. One side of each comparison is a string or \<open>null\<close>, so
  strict equality is equality of values.
\<close>

fun some_duplicate :: "jsval list \<Rightarrow> jsstring \<Rightarrow> jsstring option \<Rightarrow> error + bool" where
  "some_duplicate [] sid e = Inr False"
| "some_duplicate (s # ss) sid e =
     (case getprop s (js ''sid'') of
        Inl x \<Rightarrow> Inl x
      | Inr v \<Rightarrow>
          if v = JStr sid then
            (case getprop s (js ''id'') of
               Inl x \<Rightarrow> Inl x
             | Inr i \<Rightarrow> if i \<noteq> editing_val e then Inr True else some_duplicate ss sid e)
          else some_duplicate ss sid e)"

text \<open>
  Assigning a value to \<open>input.value\<close> converts it to a string first; the text of a
  converted value that is not a string is the platform's.
\<close>

definition input_value :: "platform \<Rightarrow> jsval \<Rightarrow> error + jsstring" where
  "input_value P v =
     (if convertible v then Inr (case v of JStr s \<Rightarrow> s | _ \<Rightarrow> to_string P v) else Inl TypeError)"

text \<open>
  \<open>startEdit\<close> sets \<open>editingId\<close> and then the four inputs one after the other; an
  assignment that throws leaves what was set before it and skips the rest, the label of
  the button included.
\<close>

definition startEdit :: "platform \<Rightarrow> jsstring \<Rightarrow> state \<Rightarrow> result" where
  "startEdit P i st =
     (case find_id (students st) i of
        Inl e \<Rightarrow> Threw e st
      | Inr None \<Rightarrow> Returned st
      | Inr (Some student) \<Rightarrow>
          (let st1 = st\<lparr>editingId := Some i\<rparr> in
           case input_value P (field_of student (js ''name'')) of
             Inl e \<Rightarrow> Threw e st1
           | Inr n \<Rightarrow>
               (let st2 = st1\<lparr>nameInput := n\<rparr> in
                case input_value P (field_of student (js ''sid'')) of
                  Inl e \<Rightarrow> Threw e st2
                | Inr s \<Rightarrow>
                    (let st3 = st2\<lparr>sidInput := s\<rparr> in
                     case input_value P (field_of student (js ''email'')) of
                       Inl e \<Rightarrow> Threw e st3
                     | Inr m \<Rightarrow>
                         (let st4 = st3\<lparr>emailInput := m\<rparr> in
                          case input_value P (field_of student (js ''contact'')) of
                            Inl e \<Rightarrow> Threw e st4
                          | Inr c \<Rightarrow> Returned (st4\<lparr>contactInput := c, saveBtn := js ''Update''\<rparr>))))))"

definition updateStudent :: "platform \<Rightarrow> jsstring \<Rightarrow> formdata \<Rightarrow> state \<Rightarrow> result" where
  "updateStudent P i newData st =
     (case findIndex_id (students st) i of
        Inl e \<Rightarrow> Threw e st
      | Inr None \<Rightarrow> Returned st
      | Inr (Some idx) \<Rightarrow>
          (let st1 = st\<lparr>students := (students st)[idx := mk_record i newData]\<rparr>
           in renderStudents (saveToStorage P (students st1) st1)))"

text \<open>\<open>confirmed\<close> is the answer of the user to the \<open>confirm\<close> dialog.\<close>

definition deleteStudent :: "platform \<Rightarrow> jsstring \<Rightarrow> bool \<Rightarrow> state \<Rightarrow> result" where
  "deleteStudent P i confirmed st =
     (if \<not> confirmed then Returned st
      else (case filter_not_id (students st) i of
              Inl e \<Rightarrow> Threw e st
            | Inr kept \<Rightarrow>
                (let st1 = st\<lparr>students := kept\<rparr>
                 in renderStudents (saveToStorage P (students st1) st1))))"

section \<open>Form submit handler\<close>

text \<open>A call followed by \<open>clearForm()\<close>: an exception in the call skips \<open>clearForm\<close>.\<close>

fun then_clearForm :: "result \<Rightarrow> result" where
  "then_clearForm (Returned st) = Returned (clearForm st)"
| "then_clearForm (Threw e st) = Threw e st"

definition submit :: "platform \<Rightarrow> int \<Rightarrow> jsstring \<Rightarrow> state \<Rightarrow> result" where
  "submit P now rnd st =
     (let name = trim (nameInput st);
          sid = trim (sidInput st);
          email = trim (emailInput st);
          contact = trim (contactInput st);
          en = validateName name;
          es = validateSID sid;
          ee = validateEmail email;
          ec = validateContact contact
      in if en \<noteq> [] \<or> es \<noteq> [] \<or> ee \<noteq> [] \<or> ec \<noteq> [] then Returned (showErrors en es ee ec st)
         else (case some_duplicate (students st) sid (editingId st) of
                 Inl e \<Rightarrow> Threw e st
               | Inr True \<Rightarrow> Returned (showErrors [] (js ''This Student ID already exists'') [] [] st)
               | Inr False \<Rightarrow>
                   (let d = \<lparr>data_name = name, data_sid = sid, data_email = email, data_contact = contact\<rparr>
                    in case editingId st of
                         None \<Rightarrow> then_clearForm (addStudent P now rnd d st)
                       | Some i \<Rightarrow>
                           if i \<noteq> [] then then_clearForm (updateStudent P i d st)
                           else then_clearForm (addStudent P now rnd d st))))"

section \<open>Input listeners, start-up and runs\<close>

datatype field = Name | Sid | Email | Contact

text \<open>
  The user changes one input to \<open>v\<close>; the \<open>input\<close> listener of the name, student id
  and contact inputs then strips the code units it does not allow. The email input has
  no listener.
\<close>

fun input :: "field \<Rightarrow> jsstring \<Rightarrow> state \<Rightarrow> state" where
  "input Name v st = st\<lparr>nameInput := filter (\<lambda>c. is_letter c \<or> is_space c) v\<rparr>"
| "input Sid v st = st\<lparr>sidInput := filter is_digit v\<rparr>"
| "input Email v st = st\<lparr>emailInput := v\<rparr>"
| "input Contact v st = st\<lparr>contactInput := filter is_digit v\<rparr>"

definition init :: "platform \<Rightarrow> state \<Rightarrow> result" where
  "init P st = renderStudents (st\<lparr>students := loadFromStorage P st\<rparr>)"

text \<open>The state of a freshly loaded page over a given local storage, before \<open>init\<close>.\<close>

definition fresh_page :: "(jsstring \<rightharpoonup> jsstring) \<Rightarrow> state" where
  "fresh_page store =
     \<lparr>students = [], editingId = None, nameInput = [], sidInput = [], emailInput = [],
      contactInput = [], errName = [], errSid = [], errEmail = [], errContact = [],
      saveBtn = js ''Save'', localStorage = store, effects = []\<rparr>"

text \<open>
  What the user can do: type into an input, submit the form (the environment gives
  the time and the random string), press Clear, press Edit or Delete on a row (with
  the answer to the confirmation dialog).
\<close>

datatype event =
    Type field jsstring
  | Submit int jsstring
  | Clear
  | EditClick jsstring
  | DeleteClick jsstring bool

fun handle :: "platform \<Rightarrow> event \<Rightarrow> state \<Rightarrow> result" where
  "handle P (Type f v) st = Returned (input f v st)"
| "handle P (Submit now rnd) st = submit P now rnd st"
| "handle P Clear st = Returned (clearForm st)"
| "handle P (EditClick i) st = startEdit P i st"
| "handle P (DeleteClick i c) st = deleteStudent P i c st"

text \<open>An uncaught exception ends the handler only; the page goes on with the next event.\<close>

fun run :: "platform \<Rightarrow> event list \<Rightarrow> state \<Rightarrow> state" where
  "run P [] st = st"
| "run P (ev # evs) st = run P evs (state_of (handle P ev st))"

section \<open>Notions used in the statements\<close>

text \<open>The \<open>id\<close> and the \<open>sid\<close> of every element of a roster without nullish elements.\<close>

definition ids :: "jsval list \<Rightarrow> jsval list" where
  "ids xs = map (\<lambda>s. field_of s (js ''id'')) xs"

definition sids :: "jsval list \<Rightarrow> jsval list" where
  "sids xs = map (\<lambda>s. field_of s (js ''sid'')) xs"

text \<open>An element whose \<open>id\<close> is a non-empty string, as \<open>addStudent\<close> creates them.\<close>

definition has_id :: "jsval \<Rightarrow> bool" where
  "has_id s \<longleftrightarrow> \<not> nullish s \<and> (case field_of s (js ''id'') of JStr i \<Rightarrow> i \<noteq> [] | _ \<Rightarrow> False)"

text \<open>
  A roster of records with an id, in which no two records share their \<open>id\<close> and no two
  share their \<open>sid\<close>.
\<close>

definition unique_roster :: "jsval list \<Rightarrow> bool" where
  "unique_roster xs \<longleftrightarrow> list_all has_id xs \<and> distinct (ids xs) \<and> distinct (sids xs)"

text \<open>The form is in Add mode: \<open>editingId\<close> is falsy (\<open>null\<close> or the empty string).\<close>

definition adding :: "state \<Rightarrow> bool" where
  "adding st \<longleftrightarrow> (case editingId st of None \<Rightarrow> True | Some i \<Rightarrow> i = [])"

text \<open>The four validators accept the trimmed inputs of the form.\<close>

definition valid_form :: "state \<Rightarrow> bool" where
  "valid_form st \<longleftrightarrow>
     validateName (trim (nameInput st)) = [] \<and> validateSID (trim (sidInput st)) = [] \<and>
     validateEmail (trim (emailInput st)) = [] \<and> validateContact (trim (contactInput st)) = []"

text \<open>
  The submit handler reaches \<open>addStudent\<close>: the form is valid, the duplicate check is
  false and the form is in Add mode.
\<close>

definition adds :: "state \<Rightarrow> bool" where
  "adds st \<longleftrightarrow>
     valid_form st \<and>
     some_duplicate (students st) (trim (sidInput st)) (editingId st) = Inr False \<and> adding st"

text \<open>
  Along a run, whenever a submit reaches \<open>addStudent\<close>, the id made from the time and
  the random string of that submit is not the \<open>id\<close> of an element of the roster.
\<close>

fun fresh_ids :: "platform \<Rightarrow> event list \<Rightarrow> state \<Rightarrow> bool" where
  "fresh_ids P [] st = True"
| "fresh_ids P (ev # evs) st =
     ((case ev of
         Submit now rnd \<Rightarrow> adds st \<longrightarrow> JStr (new_id now rnd) \<notin> set (ids (students st))
       | _ \<Rightarrow> True) \<and>
      fresh_ids P evs (state_of (handle P ev st)))"

text \<open>
  A platform to run examples on. Its \<open>JSON.parse\<close> reads three texts as the browser
  does and rejects every other text. Its \<open>JSON.stringify\<close> writes an array of objects
  whose members are strings without quotation marks, backslashes and control characters
  as the browser does, and \<open>null\<close> in the place of any other value. Every value
  that is not a string converts to the empty string.
\<close>

definition quoted :: "jsstring \<Rightarrow> jsstring" where
  "quoted s = 34 # s @ [34]"

definition member_text :: "jsstring \<times> jsval \<Rightarrow> jsstring" where
  "member_text kv =
     quoted (fst kv) @ 58 # (case snd kv of JStr s \<Rightarrow> quoted s | _ \<Rightarrow> js ''null'')"

fun comma_separated :: "jsstring list \<Rightarrow> jsstring" where
  "comma_separated [] = []"
| "comma_separated [t] = t"
| "comma_separated (t # ts) = t @ 44 # comma_separated ts"

definition element_text :: "jsval \<Rightarrow> jsstring" where
  "element_text v =
     (case v of
        JObj kvs \<Rightarrow> 123 # comma_separated (map member_text kvs) @ [125]
      | _ \<Rightarrow> js ''null'')"

definition plain_stringify :: "jsval \<Rightarrow> jsstring" where
  "plain_stringify v =
     (case v of
        JArr xs \<Rightarrow> 91 # comma_separated (map element_text xs) @ [93]
      | _ \<Rightarrow> js ''null'')"

definition plain_platform :: platform where
  "plain_platform =
     \<lparr>json_parse =
        (\<lambda>t. if t = js ''[]'' then Some (JArr [])
             else if t = js ''{}'' then Some (JObj [])
             else if t = js ''[{\"sid\":7},{\"sid\":7},null]'' then
               Some (JArr [JObj [(js ''sid'', JNum (Finite 7))], JObj [(js ''sid'', JNum (Finite 7))], JNull])
             else None),
      json_stringify = plain_stringify,
      to_string = (\<lambda>v. [])\<rparr>"

text \<open>Two sets of form values, and the page with a given roster and an empty storage.\<close>

definition ann :: formdata where
  "ann = \<lparr>data_name = js ''Ann Lee'', data_sid = js ''1001'', data_email = js ''a@b.com'',
          data_contact = js ''1234567890''\<rparr>"

definition bob :: formdata where
  "bob = \<lparr>data_name = js ''Bob Ray'', data_sid = js ''1002'', data_email = js ''bob@c.org'',
          data_contact = js ''0987654321''\<rparr>"

definition page_with :: "jsval list \<Rightarrow> state" where
  "page_with xs = (fresh_page Map.empty)\<lparr>students := xs\<rparr>"

text \<open>
  A stored record that cannot be displayed: the text
  \<open>{"id":"x","name":{"toString":1}}\<close> parses to it, and its name does not convert to a
  string.
\<close>

definition odd_record :: jsval where
  "odd_record =
     JObj [(js ''id'', JStr (js ''x'')), (js ''name'', JObj [(js ''toString'', JNum (Finite 1))])]"

text \<open>The four inputs holding given values.\<close>

definition fill_form :: "formdata \<Rightarrow> state \<Rightarrow> state" where
  "fill_form d st =
     st\<lparr>nameInput := data_name d, sidInput := data_sid d, emailInput := data_email d,
        contactInput := data_contact d\<rparr>"

section \<open>String literals\<close>

lemma of_char_nat_bound: "(of_char x :: nat) < 65536"
proof -
  have "(of_char x :: nat) mod 256 = of_char x" by (rule of_char_mod_256)
  then have "(of_char x :: nat) < 256" by (metis mod_less_divisor zero_less_numeral)
  also have "(256::nat) < 65536" by simp
  finally show ?thesis .
qed

lemma unat_of_char: "unat (of_char c :: jschar) = of_char c"
proof (rule of_nat_inverse)
  show "(word_of_nat (of_char c) :: jschar) = of_char c" by (rule of_nat_of_char)
  show "(of_char c :: nat) < 2 ^ LENGTH(16)" using of_char_nat_bound[of c] by simp
qed

lemma of_char_word_inj: "(of_char c :: jschar) = of_char d \<longleftrightarrow> c = d"
proof
  assume "(of_char c :: jschar) = of_char d"
  then have "unat (of_char c :: jschar) = unat (of_char d :: jschar)" by simp
  then show "c = d" by (simp only: unat_of_char of_char_eq_iff)
qed simp

lemma js_eq_iff [simp]: "js a = js b \<longleftrightarrow> a = b"
proof -
  have "inj (of_char :: char \<Rightarrow> jschar)"
    by (rule injI) (simp only: of_char_word_inj)
  then show ?thesis unfolding js_def by (rule inj_map_eq_map)
qed

lemma js_Nil [simp]: "js s = [] \<longleftrightarrow> s = []" "[] = js s \<longleftrightarrow> s = []"
  by (auto simp: js_def)

section \<open>Trimming\<close>

lemma dropWhile_id: "xs = [] \<or> \<not> P (hd xs) \<Longrightarrow> dropWhile P xs = xs"
  by (cases xs) auto

lemma trim_ends: "trim s = [] \<or> (\<not> is_space (hd (trim s)) \<and> \<not> is_space (last (trim s)))"
proof (cases "dropWhile is_space s = []")
  case True
  have "trim s = []" unfolding trim_def True by simp
  then show ?thesis by simp
next
  case False
  define u where "u = dropWhile is_space s"
  define w where "w = dropWhile is_space (rev u)"
  have u: "u \<noteq> []" "\<not> is_space (hd u)"
    using False hd_dropWhile[of is_space s] by (auto simp: u_def)
  have "hd u \<in> set (rev u)" using u by simp
  then have w: "w \<noteq> []" using u(2) unfolding w_def
    by (metis dropWhile_eq_Nil_conv)
  have hw: "\<not> is_space (hd w)" using w hd_dropWhile[of is_space "rev u"] by (simp add: w_def)
  have "last w = last (rev u)" using w unfolding w_def
    by (metis takeWhile_dropWhile_id last_appendR)
  then have lw: "\<not> is_space (last w)" using u by (simp add: last_rev)
  have "trim s = rev w" by (simp add: trim_def u_def w_def)
  then show ?thesis using w hw lw by (simp add: hd_rev last_rev)
qed

lemma trim_trim: "trim (trim s) = trim s"
proof -
  let ?t = "trim s"
  have a: "dropWhile is_space ?t = ?t"
    using trim_ends[of s] by (intro dropWhile_id) auto
  have b: "dropWhile is_space (rev ?t) = rev ?t"
    using trim_ends[of s] by (intro dropWhile_id) (auto simp: hd_rev)
  have "trim ?t = rev (dropWhile is_space (rev (dropWhile is_space ?t)))" by (simp add: trim_def)
  also have "\<dots> = ?t" by (simp add: a b)
  finally show ?thesis .
qed

section \<open>The contact validator\<close>

text \<open>
  C2. The contact validator that the submit handler calls returns
  "Contact number is required" when the input is empty after trimming, "Contact number
  must be exactly 10 digits" when the trimmed input is not empty and its length is not
  10, and the empty string when the trimmed length is 10, whatever the ten code units
  are: there is no digit check.
\<close>

theorem validateContact_length_only:
  "(trim c = [] \<longrightarrow> validateContact c = js ''Contact number is required'') \<and>
   (trim c \<noteq> [] \<and> length (trim c) \<noteq> 10 \<longrightarrow>
      validateContact c = js ''Contact number must be exactly 10 digits'') \<and>
   (length (trim c) = 10 \<longrightarrow> validateContact c = [])"
  by (auto simp: validateContact_def)

theorem validateContact_length_only_witness:
  "(trim (js ''   '') = [] \<and> validateContact (js ''   '') = js ''Contact number is required'') \<and>
   (trim (js ''12345'') \<noteq> [] \<and> length (trim (js ''12345'')) \<noteq> 10 \<and>
      validateContact (js ''12345'') = js ''Contact number must be exactly 10 digits'') \<and>
   (length (trim (js '' abcdefghij '')) = 10 \<and> validateContact (js '' abcdefghij '') = [])"
proof -
  have a: "trim (js ''   '') = []"
    by (simp add: trim_def js_def is_space_def)
  have b: "trim (js ''12345'') \<noteq> [] \<and> length (trim (js ''12345'')) \<noteq> 10"
    by (simp add: trim_def js_def is_space_def)
  have c: "length (trim (js '' abcdefghij '')) = 10"
    by (simp add: trim_def js_def is_space_def)
  show ?thesis
    using a b c validateContact_length_only[of "js ''   ''"]
      validateContact_length_only[of "js ''12345''"]
      validateContact_length_only[of "js '' abcdefghij ''"]
    by simp
qed

text \<open>
  The first declaration, which is never called, does check the digits: it would reject
  the ten letters that the second one accepts.
\<close>

lemma validateContact_shadowed_differs:
  "validateContact_shadowed (js ''abcdefghij'') = js ''Contact must be numeric'' \<and>
   validateContact (js ''abcdefghij'') = []"
  by (simp add: validateContact_shadowed_def validateContact_def trim_def js_def is_space_def
      re_digits_def is_digit_def)

section \<open>Traversals of a roster without nullish elements\<close>

lemma getprop_not_nullish: "\<not> nullish s \<Longrightarrow> getprop s k = Inr (field_of s k)"
  by (cases s) (auto simp: nullish_def field_of_def)

lemma getprop_Inl: "getprop s k = Inl e \<Longrightarrow> e = TypeError"
  by (cases s) auto

lemma getprop_nullish: "nullish s \<Longrightarrow> getprop s k = Inl TypeError"
  by (cases s) (auto simp: nullish_def)

lemma in_ids_iff: "v \<in> set (ids xs) \<longleftrightarrow> (\<exists>s\<in>set xs. field_of s (js ''id'') = v)"
  by (auto simp: ids_def)

lemma in_sids_iff: "v \<in> set (sids xs) \<longleftrightarrow> (\<exists>s\<in>set xs. field_of s (js ''sid'') = v)"
  by (auto simp: sids_def)

lemma some_duplicate_records:
  "\<not> list_ex nullish xs \<Longrightarrow>
   some_duplicate xs sid e =
     Inr (\<exists>s\<in>set xs. field_of s (js ''sid'') = JStr sid \<and> field_of s (js ''id'') \<noteq> editing_val e)"
  by (induction xs) (auto simp: getprop_not_nullish)

lemma filter_not_id_records:
  "\<not> list_ex nullish xs \<Longrightarrow>
   filter_not_id xs i = Inr (filter (\<lambda>s. field_of s (js ''id'') \<noteq> JStr i) xs)"
  by (induction xs) (auto simp: getprop_not_nullish)

lemma findIndex_id_none:
  "\<not> list_ex nullish xs \<Longrightarrow> JStr i \<notin> set (ids xs) \<Longrightarrow> findIndex_id xs i = Inr None"
  by (induction xs) (auto simp: getprop_not_nullish ids_def)

lemma findIndex_id_some:
  "\<not> list_ex nullish xs \<Longrightarrow> JStr i \<in> set (ids xs) \<Longrightarrow>
   \<exists>k. findIndex_id xs i = Inr (Some k) \<and> k < length xs \<and> field_of (xs ! k) (js ''id'') = JStr i \<and>
       (\<forall>j<k. field_of (xs ! j) (js ''id'') \<noteq> JStr i)"
proof (induction xs)
  case Nil
  then show ?case by (simp add: ids_def)
next
  case (Cons a xs)
  show ?case
  proof (cases "field_of a (js ''id'') = JStr i")
    case True
    then show ?thesis using Cons.prems by (auto simp: getprop_not_nullish)
  next
    case False
    with Cons obtain k where k: "findIndex_id xs i = Inr (Some k)" "k < length xs"
      "field_of (xs ! k) (js ''id'') = JStr i" "\<forall>j<k. field_of (xs ! j) (js ''id'') \<noteq> JStr i"
      by (auto simp: ids_def)
    have "findIndex_id (a # xs) i = Inr (Some (Suc k))"
      using False Cons.prems k(1) by (simp add: getprop_not_nullish)
    moreover have "\<forall>j<Suc k. field_of ((a # xs) ! j) (js ''id'') \<noteq> JStr i"
      using False k(4) by (auto simp: less_Suc_eq_0_disj)
    ultimately show ?thesis using k by auto
  qed
qed

lemma nullish_mk_record [simp]: "\<not> nullish (mk_record i d)"
  by (simp add: nullish_def mk_record_def)

lemma field_of_mk_record [simp]:
  "field_of (mk_record i d) (js ''id'') = JStr i"
  "field_of (mk_record i d) (js ''name'') = JStr (data_name d)"
  "field_of (mk_record i d) (js ''sid'') = JStr (data_sid d)"
  "field_of (mk_record i d) (js ''email'') = JStr (data_email d)"
  "field_of (mk_record i d) (js ''contact'') = JStr (data_contact d)"
  by (simp_all add: field_of_def mk_record_def)

lemma displayable_not_nullish: "displayable s \<Longrightarrow> \<not> nullish s"
  by (simp add: displayable_def)

lemma list_all_displayable_not_nullish: "list_all displayable xs \<Longrightarrow> \<not> list_ex nullish xs"
  by (auto simp: list_all_iff list_ex_iff displayable_not_nullish)

lemma displayable_mk_record [simp]: "displayable (mk_record i d)"
  by (simp add: displayable_def)

lemma students_page_with [simp]: "students (page_with xs) = xs"
  by (simp add: page_with_def fresh_page_def)

section \<open>Loading the roster\<close>

text \<open>
  C7. \<open>loadFromStorage\<close> returns the empty array when the storage slot is absent, when
  \<open>JSON.parse\<close> rejects its text, and when the parsed value is not an array; an
  exception raised inside the \<open>try\<close> block never leaves the function.
\<close>

theorem loadFromStorage_absorbs_failures:
  "(localStorage st STORAGE_KEY = None \<longrightarrow> loadFromStorage P st = []) \<and>
   (\<forall>raw. localStorage st STORAGE_KEY = Some raw \<and> json_parse P raw = None \<longrightarrow>
      loadFromStorage P st = []) \<and>
   (\<forall>raw v. localStorage st STORAGE_KEY = Some raw \<and> json_parse P raw = Some v \<and>
      (\<forall>xs. v \<noteq> JArr xs) \<longrightarrow> loadFromStorage P st = []) \<and>
   (\<forall>e. loadFromStorage_try P st = Inl e \<longrightarrow> loadFromStorage P st = [])"
  by (auto simp: loadFromStorage_def loadFromStorage_try_def split: option.splits jsval.splits)

theorem loadFromStorage_absorbs_failures_witness:
  "(localStorage (fresh_page Map.empty) STORAGE_KEY = None \<and>
      loadFromStorage plain_platform (fresh_page Map.empty) = []) \<and>
   (localStorage (fresh_page [STORAGE_KEY \<mapsto> js ''[1,'']) STORAGE_KEY = Some (js ''[1,'') \<and>
      json_parse plain_platform (js ''[1,'') = None \<and>
      loadFromStorage plain_platform (fresh_page [STORAGE_KEY \<mapsto> js ''[1,'']) = []) \<and>
   (localStorage (fresh_page [STORAGE_KEY \<mapsto> js ''{}'']) STORAGE_KEY = Some (js ''{}'') \<and>
      json_parse plain_platform (js ''{}'') = Some (JObj []) \<and> (\<forall>xs. JObj [] \<noteq> JArr xs) \<and>
      loadFromStorage plain_platform (fresh_page [STORAGE_KEY \<mapsto> js ''{}'']) = []) \<and>
   (loadFromStorage_try plain_platform (fresh_page [STORAGE_KEY \<mapsto> js ''[1,'']) = Inl SyntaxError \<and>
      loadFromStorage plain_platform (fresh_page [STORAGE_KEY \<mapsto> js ''[1,'']) = [])"
proof -
  have p1: "json_parse plain_platform (js ''[1,'') = None"
    by (simp add: plain_platform_def)
  have p2: "json_parse plain_platform (js ''{}'') = Some (JObj [])"
    by (simp add: plain_platform_def)
  have t: "loadFromStorage_try plain_platform (fresh_page [STORAGE_KEY \<mapsto> js ''[1,'']) = Inl SyntaxError"
    by (simp add: loadFromStorage_try_def fresh_page_def p1)
  show ?thesis
    using p1 p2 t
      loadFromStorage_absorbs_failures[of "fresh_page Map.empty" plain_platform]
      loadFromStorage_absorbs_failures[of "fresh_page [STORAGE_KEY \<mapsto> js ''[1,'']" plain_platform]
      loadFromStorage_absorbs_failures[of "fresh_page [STORAGE_KEY \<mapsto> js ''{}'']" plain_platform]
    by (simp add: fresh_page_def)
qed

text \<open>
  C9. \<open>loadFromStorage\<close> does not look at the elements: when the slot holds a text that
  \<open>JSON.parse\<close> reads as an array, that array is returned as it is, and \<open>init\<close> makes
  it the roster. (\<open>JSON.parse\<close> rejects the empty text, for which the function returns
  before parsing.) The elements may lack fields, hold values that are not strings, share
  a \<open>sid\<close>, or be \<open>null\<close>.
\<close>

theorem loadFromStorage_unchecked:
  assumes "localStorage st STORAGE_KEY = Some raw" and "raw \<noteq> []"
    and "json_parse P raw = Some (JArr xs)"
  shows "loadFromStorage P st = xs \<and> students (state_of (init P st)) = xs"
  using assms
  by (simp add: loadFromStorage_def loadFromStorage_try_def init_def renderStudents_def)

theorem loadFromStorage_unchecked_witness:
  "localStorage (fresh_page [STORAGE_KEY \<mapsto> js ''[{\"sid\":7},{\"sid\":7},null]'']) STORAGE_KEY =
     Some (js ''[{\"sid\":7},{\"sid\":7},null]'') \<and>
   js ''[{\"sid\":7},{\"sid\":7},null]'' \<noteq> [] \<and>
   json_parse plain_platform (js ''[{\"sid\":7},{\"sid\":7},null]'') =
     Some (JArr [JObj [(js ''sid'', JNum (Finite 7))], JObj [(js ''sid'', JNum (Finite 7))], JNull]) \<and>
   loadFromStorage plain_platform (fresh_page [STORAGE_KEY \<mapsto> js ''[{\"sid\":7},{\"sid\":7},null]'']) =
     [JObj [(js ''sid'', JNum (Finite 7))], JObj [(js ''sid'', JNum (Finite 7))], JNull] \<and>
   students (state_of (init plain_platform
       (fresh_page [STORAGE_KEY \<mapsto> js ''[{\"sid\":7},{\"sid\":7},null]'']))) =
     [JObj [(js ''sid'', JNum (Finite 7))], JObj [(js ''sid'', JNum (Finite 7))], JNull]"
proof -
  let ?t = "js ''[{\"sid\":7},{\"sid\":7},null]''"
  have a: "localStorage (fresh_page [STORAGE_KEY \<mapsto> ?t]) STORAGE_KEY = Some ?t"
    by (simp add: fresh_page_def)
  have b: "?t \<noteq> []" by simp
  have c: "json_parse plain_platform ?t =
      Some (JArr [JObj [(js ''sid'', JNum (Finite 7))], JObj [(js ''sid'', JNum (Finite 7))], JNull])"
    by (simp add: plain_platform_def)
  show ?thesis using a b c loadFromStorage_unchecked[OF a b c] by simp
qed

text \<open>
  The roster loaded in this way breaks the data model: two elements share their \<open>sid\<close>,
  and the \<open>null\<close> element makes \<open>renderStudents\<close> throw during start-up.
\<close>

lemma init_malformed_roster:
  "\<not> distinct (sids (students (state_of (init plain_platform
        (fresh_page [STORAGE_KEY \<mapsto> js ''[{\"sid\":7},{\"sid\":7},null]'']))))) \<and>
   \<not> returned (init plain_platform (fresh_page [STORAGE_KEY \<mapsto> js ''[{\"sid\":7},{\"sid\":7},null]'']))"
  by (simp add: init_def loadFromStorage_def loadFromStorage_try_def fresh_page_def plain_platform_def
      renderStudents_def displayable_def nullish_def sids_def field_of_def)

section \<open>Update and delete\<close>

lemma renderStudents_records:
  "list_all displayable (students st) \<Longrightarrow>
   renderStudents st = Returned (st\<lparr>effects := effects st @ [Rendered (students st)]\<rparr>)"
  by (simp add: renderStudents_def)

lemma students_renderStudents [simp]: "students (state_of (renderStudents st)) = students st"
  by (simp add: renderStudents_def)

lemma localStorage_renderStudents [simp]:
  "localStorage (state_of (renderStudents st)) = localStorage st"
  by (simp add: renderStudents_def)

text \<open>
  C5. On a roster of records (no element is nullish) in which no record has the given
  id, \<open>updateStudent\<close> returns without an exception and leaves the whole state as it
  was: the roster, the storage and the trace of writes and renderings.
\<close>

theorem updateStudent_absent_noop:
  assumes "\<not> list_ex nullish (students st)" and "JStr i \<notin> set (ids (students st))"
  shows "updateStudent P i d st = Returned st"
  using assms by (simp add: updateStudent_def findIndex_id_none)

theorem updateStudent_absent_noop_witness:
  "\<not> list_ex nullish (students (page_with [mk_record (js ''a'') ann])) \<and>
   JStr (js ''b'') \<notin> set (ids (students (page_with [mk_record (js ''a'') ann]))) \<and>
   updateStudent plain_platform (js ''b'') bob (page_with [mk_record (js ''a'') ann]) =
     Returned (page_with [mk_record (js ''a'') ann])"
proof -
  have a: "\<not> list_ex nullish (students (page_with [mk_record (js ''a'') ann]))" by simp
  have b: "JStr (js ''b'') \<notin> set (ids (students (page_with [mk_record (js ''a'') ann])))"
    by (simp add: ids_def)
  show ?thesis using a b updateStudent_absent_noop[OF a b] by simp
qed

text \<open>
  C8. On a roster of records (no element is nullish) holding a record with the given
  id, \<open>updateStudent\<close> replaces the first such record, at its position \<open>k\<close>, by the
  object made of the id and the four given values, which has no other field; the roster
  keeps its length and every other position keeps its element, and the new roster is
  written to the storage. When every element of the new roster can be displayed, the
  function returns and the new roster has been rendered.
\<close>

theorem updateStudent_in_place:
  assumes "\<not> list_ex nullish (students st)" and "JStr i \<in> set (ids (students st))"
  shows "\<exists>k<length (students st).
           field_of (students st ! k) (js ''id'') = JStr i \<and>
           (\<forall>j<k. field_of (students st ! j) (js ''id'') \<noteq> JStr i) \<and>
           students (state_of (updateStudent P i d st)) = (students st)[k := mk_record i d] \<and>
           length (students (state_of (updateStudent P i d st))) = length (students st) \<and>
           students (state_of (updateStudent P i d st)) ! k =
             JObj [(js ''id'', JStr i), (js ''name'', JStr (data_name d)), (js ''sid'', JStr (data_sid d)),
                   (js ''email'', JStr (data_email d)), (js ''contact'', JStr (data_contact d))] \<and>
           (\<forall>j<length (students st). j \<noteq> k \<longrightarrow>
              students (state_of (updateStudent P i d st)) ! j = students st ! j) \<and>
           localStorage (state_of (updateStudent P i d st)) STORAGE_KEY =
             Some (json_stringify P (JArr ((students st)[k := mk_record i d]))) \<and>
           (list_all displayable ((students st)[k := mk_record i d]) \<longrightarrow>
              updateStudent P i d st =
                Returned (st\<lparr>students := (students st)[k := mk_record i d],
                            localStorage := (localStorage st)
                              (STORAGE_KEY \<mapsto> json_stringify P (JArr ((students st)[k := mk_record i d]))),
                            effects := effects st @
                              [SetItem STORAGE_KEY (json_stringify P (JArr ((students st)[k := mk_record i d]))),
                               Rendered ((students st)[k := mk_record i d])]\<rparr>))"
proof -
  from findIndex_id_some[OF assms] obtain k where k:
    "findIndex_id (students st) i = Inr (Some k)" "k < length (students st)"
    "field_of (students st ! k) (js ''id'') = JStr i"
    "\<forall>j<k. field_of (students st ! j) (js ''id'') \<noteq> JStr i"
    by blast
  let ?new = "(students st)[k := mk_record i d]"
  let ?saved = "st\<lparr>students := ?new,
                  localStorage := (localStorage st)(STORAGE_KEY \<mapsto> json_stringify P (JArr ?new)),
                  effects := effects st @ [SetItem STORAGE_KEY (json_stringify P (JArr ?new))]\<rparr>"
  have upd: "updateStudent P i d st = renderStudents ?saved"
    using k(1) by (simp add: updateStudent_def saveToStorage_def Let_def)
  have ret: "renderStudents ?saved = Returned (?saved\<lparr>effects := effects ?saved @ [Rendered ?new]\<rparr>)"
    if "list_all displayable ?new"
    using that by (simp add: renderStudents_def)
  show ?thesis
  proof (intro exI[of _ k] conjI impI)
    assume "list_all displayable ?new"
    then show "updateStudent P i d st =
        Returned (st\<lparr>students := ?new,
                    localStorage := (localStorage st)(STORAGE_KEY \<mapsto> json_stringify P (JArr ?new)),
                    effects := effects st @ [SetItem STORAGE_KEY (json_stringify P (JArr ?new)),
                                             Rendered ?new]\<rparr>)"
      by (simp add: upd ret)
  qed (use k(2,3,4) in \<open>simp_all add: upd mk_record_def\<close>)
qed

text \<open>
  C6. A delete that the user declines changes nothing: the function returns the state it
  was given, so the roster is the same and nothing is written or rendered. A confirmed
  delete on a roster of records (no element is nullish) keeps the records with another
  id and writes the whole new roster to the storage; when every record that is kept can
  be displayed, the function returns and the new roster has been rendered.
\<close>

theorem deleteStudent_gate:
  "deleteStudent P i False st = Returned st \<and>
   (\<not> list_ex nullish (students st) \<longrightarrow>
      (let kept = filter (\<lambda>s. field_of s (js ''id'') \<noteq> JStr i) (students st);
           written = json_stringify P (JArr kept)
       in students (state_of (deleteStudent P i True st)) = kept \<and>
          localStorage (state_of (deleteStudent P i True st)) =
            (localStorage st)(STORAGE_KEY \<mapsto> written) \<and>
          (list_all displayable kept \<longrightarrow>
             deleteStudent P i True st =
               Returned (st\<lparr>students := kept,
                           localStorage := (localStorage st)(STORAGE_KEY \<mapsto> written),
                           effects := effects st @ [SetItem STORAGE_KEY written, Rendered kept]\<rparr>))))"
  by (simp add: deleteStudent_def filter_not_id_records saveToStorage_def renderStudents_def Let_def)

text \<open>
  C10. A confirmed delete on a roster of records (no element is nullish) removes every
  record with the given id and keeps the others in their order. When no record has the
  id, the roster is the same and is still written to the storage, and it is rendered
  again if its records can be displayed (the rendering throws otherwise, as it did when
  the page was loaded).
\<close>

theorem deleteStudent_removes_all:
  assumes "\<not> list_ex nullish (students st)"
  shows "students (state_of (deleteStudent P i True st)) =
           filter (\<lambda>s. field_of s (js ''id'') \<noteq> JStr i) (students st) \<and>
         JStr i \<notin> set (ids (students (state_of (deleteStudent P i True st)))) \<and>
         subseq (students (state_of (deleteStudent P i True st))) (students st) \<and>
         (JStr i \<notin> set (ids (students st)) \<longrightarrow>
            students (state_of (deleteStudent P i True st)) = students st \<and>
            localStorage (state_of (deleteStudent P i True st)) =
              (localStorage st)(STORAGE_KEY \<mapsto> json_stringify P (JArr (students st))) \<and>
            effects (state_of (deleteStudent P i True st)) =
              effects st @ SetItem STORAGE_KEY (json_stringify P (JArr (students st))) #
                (if list_all displayable (students st) then [Rendered (students st)] else []) \<and>
            (list_all displayable (students st) \<longrightarrow>
               deleteStudent P i True st =
                 Returned (st\<lparr>localStorage :=
                               (localStorage st)(STORAGE_KEY \<mapsto> json_stringify P (JArr (students st))),
                             effects := effects st @
                               [SetItem STORAGE_KEY (json_stringify P (JArr (students st))),
                                Rendered (students st)]\<rparr>)))"
proof -
  let ?kept = "filter (\<lambda>s. field_of s (js ''id'') \<noteq> JStr i) (students st)"
  let ?saved = "st\<lparr>students := ?kept,
                  localStorage := (localStorage st)(STORAGE_KEY \<mapsto> json_stringify P (JArr ?kept)),
                  effects := effects st @ [SetItem STORAGE_KEY (json_stringify P (JArr ?kept))]\<rparr>"
  have del: "deleteStudent P i True st = renderStudents ?saved"
    using assms by (simp add: deleteStudent_def filter_not_id_records saveToStorage_def Let_def)
  have kept: "students (state_of (deleteStudent P i True st)) = ?kept"
    by (simp add: del)
  have same: "?kept = students st" if "JStr i \<notin> set (ids (students st))"
  proof -
    have "\<forall>s\<in>set (students st). field_of s (js ''id'') \<noteq> JStr i"
      using that by (simp add: in_ids_iff)
    then show ?thesis by (simp add: filter_id_conv)
  qed
  have nomatch: "students (state_of (deleteStudent P i True st)) = students st \<and>
      localStorage (state_of (deleteStudent P i True st)) =
        (localStorage st)(STORAGE_KEY \<mapsto> json_stringify P (JArr (students st))) \<and>
      effects (state_of (deleteStudent P i True st)) =
        effects st @ SetItem STORAGE_KEY (json_stringify P (JArr (students st))) #
          (if list_all displayable (students st) then [Rendered (students st)] else []) \<and>
      (list_all displayable (students st) \<longrightarrow>
         deleteStudent P i True st =
           Returned (st\<lparr>localStorage :=
                         (localStorage st)(STORAGE_KEY \<mapsto> json_stringify P (JArr (students st))),
                       effects := effects st @
                         [SetItem STORAGE_KEY (json_stringify P (JArr (students st))),
                          Rendered (students st)]\<rparr>))"
    if "JStr i \<notin> set (ids (students st))"
    unfolding del same[OF that] by (simp add: renderStudents_def)
  have "JStr i \<notin> set (ids ?kept)" by (auto simp: in_ids_iff)
  moreover have "subseq ?kept (students st)" by simp
  ultimately show ?thesis using nomatch by (simp add: kept)
qed

text \<open>
  With a record that cannot be displayed in the roster, a confirmed delete of another id
  writes the roster and then throws in \<open>renderStudents\<close>: nothing is rendered. Starting
  an edit of that record throws at the first input, after \<open>editingId\<close> was set.
\<close>

lemma delete_throws_after_write:
  "deleteStudent P (js ''c'') True (page_with [odd_record]) =
     Threw TypeError ((page_with [odd_record])
       \<lparr>localStorage := [STORAGE_KEY \<mapsto> json_stringify P (JArr [odd_record])],
        effects := [SetItem STORAGE_KEY (json_stringify P (JArr [odd_record]))]\<rparr>)"
  by (simp add: deleteStudent_def saveToStorage_def renderStudents_def displayable_def Let_def
      odd_record_def field_of_def page_with_def fresh_page_def)

lemma startEdit_throws_after_editingId:
  "startEdit P (js ''x'') (page_with [odd_record]) =
     Threw TypeError ((page_with [odd_record])\<lparr>editingId := Some (js ''x'')\<rparr>)"
  by (simp add: startEdit_def input_value_def Let_def odd_record_def field_of_def)

text \<open>The statements on update and delete, run on small rosters.\<close>

lemma plain_stringify_examples:
  "plain_stringify (JArr [mk_record (js ''b'') bob]) =
     js ''[{\"id\":\"b\",\"name\":\"Bob Ray\",\"sid\":\"1002\",\"email\":\"bob@c.org\",\"contact\":\"0987654321\"}]''"
  "plain_stringify (JArr [mk_record (js ''a'') ann]) =
     js ''[{\"id\":\"a\",\"name\":\"Ann Lee\",\"sid\":\"1001\",\"email\":\"a@b.com\",\"contact\":\"1234567890\"}]''"
  by (simp_all add: plain_stringify_def element_text_def member_text_def quoted_def mk_record_def
      ann_def bob_def js_def)

theorem updateStudent_in_place_witness:
  "\<not> list_ex nullish (students (page_with [mk_record (js ''a'') ann, mk_record (js ''b'') bob])) \<and>
   JStr (js ''b'') \<in> set (ids (students (page_with [mk_record (js ''a'') ann, mk_record (js ''b'') bob]))) \<and>
   students (state_of (updateStudent plain_platform (js ''b'') ann
       (page_with [mk_record (js ''a'') ann, mk_record (js ''b'') bob]))) =
     [mk_record (js ''a'') ann, mk_record (js ''b'') ann] \<and>
   list_all displayable [mk_record (js ''a'') ann, mk_record (js ''b'') ann] \<and>
   returned (updateStudent plain_platform (js ''b'') ann
       (page_with [mk_record (js ''a'') ann, mk_record (js ''b'') bob]))"
proof -
  let ?st = "page_with [mk_record (js ''a'') ann, mk_record (js ''b'') bob]"
  have a: "\<not> list_ex nullish (students ?st)" by simp
  have b: "JStr (js ''b'') \<in> set (ids (students ?st))" by (simp add: ids_def)
  from updateStudent_in_place[OF a b, of plain_platform ann] obtain k where k:
    "k < length (students ?st)" "field_of (students ?st ! k) (js ''id'') = JStr (js ''b'')"
    "students (state_of (updateStudent plain_platform (js ''b'') ann ?st)) =
       (students ?st)[k := mk_record (js ''b'') ann]"
    "list_all displayable ((students ?st)[k := mk_record (js ''b'') ann]) \<longrightarrow>
       returned (updateStudent plain_platform (js ''b'') ann ?st)"
    by auto
  have "k = 1" using k(1,2) by (cases k) auto
  then show ?thesis using a b k(3,4) by simp
qed

theorem deleteStudent_gate_witness:
  "deleteStudent plain_platform (js ''a'') False
       (page_with [mk_record (js ''a'') ann, mk_record (js ''b'') bob]) =
     Returned (page_with [mk_record (js ''a'') ann, mk_record (js ''b'') bob]) \<and>
   \<not> list_ex nullish (students (page_with [mk_record (js ''a'') ann, mk_record (js ''b'') bob])) \<and>
   list_all displayable [mk_record (js ''b'') bob] \<and>
   deleteStudent plain_platform (js ''a'') True
       (page_with [mk_record (js ''a'') ann, mk_record (js ''b'') bob]) =
     Returned ((page_with [mk_record (js ''a'') ann, mk_record (js ''b'') bob])
       \<lparr>students := [mk_record (js ''b'') bob],
        localStorage := [STORAGE_KEY \<mapsto>
          js ''[{\"id\":\"b\",\"name\":\"Bob Ray\",\"sid\":\"1002\",\"email\":\"bob@c.org\",\"contact\":\"0987654321\"}]''],
        effects :=
          [SetItem STORAGE_KEY
             (js ''[{\"id\":\"b\",\"name\":\"Bob Ray\",\"sid\":\"1002\",\"email\":\"bob@c.org\",\"contact\":\"0987654321\"}]''),
           Rendered [mk_record (js ''b'') bob]]\<rparr>)"
proof -
  let ?st = "page_with [mk_record (js ''a'') ann, mk_record (js ''b'') bob]"
  have a: "\<not> list_ex nullish (students ?st)" by simp
  have d: "list_all displayable [mk_record (js ''b'') bob]" by simp
  have s: "localStorage ?st = Map.empty" "effects ?st = []"
    by (simp_all add: page_with_def fresh_page_def)
  have p: "json_stringify plain_platform = plain_stringify"
    by (simp add: plain_platform_def)
  show ?thesis
    using a d deleteStudent_gate[of plain_platform "js ''a''" ?st]
    by (simp add: Let_def s p plain_stringify_examples)
qed

theorem deleteStudent_removes_all_witness:
  "\<not> list_ex nullish
      (students (page_with [mk_record (js ''a'') ann, mk_record (js ''b'') bob, mk_record (js ''a'') bob])) \<and>
   students (state_of (deleteStudent plain_platform (js ''a'') True
       (page_with [mk_record (js ''a'') ann, mk_record (js ''b'') bob, mk_record (js ''a'') bob]))) =
     [mk_record (js ''b'') bob] \<and>
   \<not> list_ex nullish (students (page_with [mk_record (js ''a'') ann])) \<and>
   JStr (js ''c'') \<notin> set (ids (students (page_with [mk_record (js ''a'') ann]))) \<and>
   list_all displayable (students (page_with [mk_record (js ''a'') ann])) \<and>
   deleteStudent plain_platform (js ''c'') True (page_with [mk_record (js ''a'') ann]) =
     Returned ((page_with [mk_record (js ''a'') ann])
       \<lparr>localStorage := [STORAGE_KEY \<mapsto>
          js ''[{\"id\":\"a\",\"name\":\"Ann Lee\",\"sid\":\"1001\",\"email\":\"a@b.com\",\"contact\":\"1234567890\"}]''],
        effects :=
          [SetItem STORAGE_KEY
             (js ''[{\"id\":\"a\",\"name\":\"Ann Lee\",\"sid\":\"1001\",\"email\":\"a@b.com\",\"contact\":\"1234567890\"}]''),
           Rendered [mk_record (js ''a'') ann]]\<rparr>)"
proof -
  let ?st3 = "page_with [mk_record (js ''a'') ann, mk_record (js ''b'') bob, mk_record (js ''a'') bob]"
  let ?st1 = "page_with [mk_record (js ''a'') ann]"
  have a3: "\<not> list_ex nullish (students ?st3)" by simp
  have a1: "\<not> list_ex nullish (students ?st1)" by simp
  have c: "JStr (js ''c'') \<notin> set (ids (students ?st1))" by (simp add: ids_def)
  have d: "list_all displayable (students ?st1)" by simp
  have s: "localStorage ?st1 = Map.empty" "effects ?st1 = []"
    by (simp_all add: page_with_def fresh_page_def)
  have p: "json_stringify plain_platform = plain_stringify"
    by (simp add: plain_platform_def)
  have r3: "students (state_of (deleteStudent plain_platform (js ''a'') True ?st3)) = [mk_record (js ''b'') bob]"
    using deleteStudent_removes_all[OF a3, of plain_platform "js ''a''"] by simp
  have r1: "deleteStudent plain_platform (js ''c'') True ?st1 =
      Returned (?st1\<lparr>localStorage :=
                    (localStorage ?st1)(STORAGE_KEY \<mapsto> json_stringify plain_platform (JArr (students ?st1))),
                  effects := effects ?st1 @
                    [SetItem STORAGE_KEY (json_stringify plain_platform (JArr (students ?st1))),
                     Rendered (students ?st1)]\<rparr>)"
    using deleteStudent_removes_all[OF a1, of plain_platform "js ''c''"] c d by blast
  show ?thesis
    using a3 a1 c d r3 by (simp add: r1 s p plain_stringify_examples)
qed

section \<open>Rejected submits\<close>

lemma validate_trim:
  "validateName (trim s) = validateName s" "validateSID (trim s) = validateSID s"
  "validateEmail (trim s) = validateEmail s" "validateContact (trim s) = validateContact s"
  by (simp_all add: validateName_def validateSID_def validateEmail_def validateContact_def trim_trim)

lemma valid_form_iff:
  "valid_form st \<longleftrightarrow>
     validateName (nameInput st) = [] \<and> validateSID (sidInput st) = [] \<and>
     validateEmail (emailInput st) = [] \<and> validateContact (contactInput st) = []"
  by (simp add: valid_form_def validate_trim)

lemma submit_invalid:
  "\<not> valid_form st \<Longrightarrow>
   submit P now rnd st =
     Returned (showErrors (validateName (nameInput st)) (validateSID (sidInput st))
                 (validateEmail (emailInput st)) (validateContact (contactInput st)) st)"
  by (auto simp: submit_def valid_form_def Let_def validate_trim)

lemma submit_valid:
  "valid_form st \<Longrightarrow>
   submit P now rnd st =
     (case some_duplicate (students st) (trim (sidInput st)) (editingId st) of
        Inl e \<Rightarrow> Threw e st
      | Inr True \<Rightarrow> Returned (showErrors [] (js ''This Student ID already exists'') [] [] st)
      | Inr False \<Rightarrow>
          (let d = \<lparr>data_name = trim (nameInput st), data_sid = trim (sidInput st),
                    data_email = trim (emailInput st), data_contact = trim (contactInput st)\<rparr>
           in if adding st then then_clearForm (addStudent P now rnd d st)
              else then_clearForm (updateStudent P (the (editingId st)) d st)))"
  by (auto simp: submit_def valid_form_def Let_def adding_def split: sum.splits option.splits bool.splits)

lemma submit_adds:
  "adds st \<Longrightarrow>
   submit P now rnd st =
     then_clearForm (addStudent P now rnd
       \<lparr>data_name = trim (nameInput st), data_sid = trim (sidInput st),
        data_email = trim (emailInput st), data_contact = trim (contactInput st)\<rparr> st)"
  by (simp add: adds_def submit_valid Let_def)

text \<open>
  C4. When at least one of the four validators returns a message for the value of its
  input, the submit handler returns with the four error elements showing exactly the
  four results (so every message is shown, together), and nothing else changes: the
  roster, the storage, the trace of writes and renderings, the edit id, the label of
  the save button and the inputs are as before. Submitting again gives the same state
  once more, with the same four messages and the same roster.
\<close>

theorem submit_invalid_rejected:
  assumes "validateName (nameInput st) \<noteq> [] \<or> validateSID (sidInput st) \<noteq> [] \<or>
           validateEmail (emailInput st) \<noteq> [] \<or> validateContact (contactInput st) \<noteq> []"
  shows "submit P now rnd st =
           Returned (st\<lparr>errName := validateName (nameInput st), errSid := validateSID (sidInput st),
                       errEmail := validateEmail (emailInput st),
                       errContact := validateContact (contactInput st)\<rparr>) \<and>
         students (state_of (submit P now rnd st)) = students st \<and>
         localStorage (state_of (submit P now rnd st)) = localStorage st \<and>
         effects (state_of (submit P now rnd st)) = effects st \<and>
         editingId (state_of (submit P now rnd st)) = editingId st \<and>
         saveBtn (state_of (submit P now rnd st)) = saveBtn st \<and>
         submit P now' rnd' (state_of (submit P now rnd st)) = submit P now rnd st"
proof -
  let ?st' = "showErrors (validateName (nameInput st)) (validateSID (sidInput st))
                 (validateEmail (emailInput st)) (validateContact (contactInput st)) st"
  have inv: "\<not> valid_form st" using assms by (simp add: valid_form_iff)
  have first: "submit P now rnd st = Returned ?st'" by (rule submit_invalid[OF inv])
  have inv': "\<not> valid_form ?st'" using inv by (simp add: valid_form_def showErrors_def)
  have "submit P now' rnd' ?st' = Returned ?st'"
    unfolding submit_invalid[OF inv'] by (simp add: showErrors_def)
  then show ?thesis by (simp add: first showErrors_def)
qed

theorem submit_invalid_rejected_witness:
  "validateName (nameInput ((page_with [mk_record (js ''a'') ann])\<lparr>nameInput := js ''Ann 2'', contactInput := js ''12345''\<rparr>)) \<noteq> [] \<and>
   submit plain_platform 1 (js ''0.abc'')
       ((page_with [mk_record (js ''a'') ann])\<lparr>nameInput := js ''Ann 2'', contactInput := js ''12345''\<rparr>) =
     Returned ((page_with [mk_record (js ''a'') ann])
       \<lparr>nameInput := js ''Ann 2'', contactInput := js ''12345'',
        errName := js ''Name must have letters and spaces only'',
        errSid := js ''Student ID is required'',
        errEmail := js ''Email is required'',
        errContact := js ''Contact number must be exactly 10 digits''\<rparr>)"
proof -
  let ?st = "(page_with [mk_record (js ''a'') ann])\<lparr>nameInput := js ''Ann 2'', contactInput := js ''12345''\<rparr>"
  have n: "validateName (js ''Ann 2'') = js ''Name must have letters and spaces only''"
    by (simp add: validateName_def trim_def js_def is_space_def re_letters_spaces_def is_letter_def)
  have c: "validateContact (js ''12345'') = js ''Contact number must be exactly 10 digits''"
    by (simp add: validateContact_def trim_def js_def is_space_def)
  have e: "validateSID [] = js ''Student ID is required''" "validateEmail [] = js ''Email is required''"
    by (simp_all add: validateSID_def validateEmail_def trim_def)
  have f: "nameInput ?st = js ''Ann 2''" "sidInput ?st = []" "emailInput ?st = []"
    "contactInput ?st = js ''12345''"
    by (simp_all add: page_with_def fresh_page_def)
  have h: "validateName (nameInput ?st) \<noteq> [] \<or> validateSID (sidInput ?st) \<noteq> [] \<or>
           validateEmail (emailInput ?st) \<noteq> [] \<or> validateContact (contactInput ?st) \<noteq> []"
    by (simp add: f n)
  have h1: "validateName (nameInput ?st) \<noteq> []" by (simp add: f n)
  show ?thesis
    using h1 submit_invalid_rejected[OF h, of plain_platform 1 "js ''0.abc''"]
    by (simp add: f n c e)
qed

section \<open>The duplicate check\<close>

lemma has_id_not_nullish: "has_id s \<Longrightarrow> \<not> nullish s"
  by (simp add: has_id_def)

lemma has_id_mk_record [simp]: "has_id (mk_record i d) \<longleftrightarrow> i \<noteq> []"
  by (simp add: has_id_def)

lemma getprop_mk_record [simp]: "getprop (mk_record i d) k = Inr (field_of (mk_record i d) k)"
  by (simp add: getprop_not_nullish)

lemma students_then_clearForm [simp]:
  "students (state_of (then_clearForm r)) = students (state_of r)"
  by (cases r) (simp_all add: clearForm_def showErrors_def)

lemma students_addStudent [simp]:
  "students (state_of (addStudent P now rnd d st)) = students st @ [mk_record (new_id now rnd) d]"
  by (simp add: addStudent_def saveToStorage_def Let_def)

lemma addStudent_records:
  "list_all displayable (students st) \<Longrightarrow>
   addStudent P now rnd d st =
     Returned (st\<lparr>students := students st @ [mk_record (new_id now rnd) d],
                 localStorage := (localStorage st)(STORAGE_KEY \<mapsto>
                   json_stringify P (JArr (students st @ [mk_record (new_id now rnd) d]))),
                 effects := effects st @
                   [SetItem STORAGE_KEY (json_stringify P (JArr (students st @ [mk_record (new_id now rnd) d]))),
                    Rendered (students st @ [mk_record (new_id now rnd) d])]\<rparr>)"
  by (simp add: addStudent_def saveToStorage_def renderStudents_def Let_def)


text \<open>The scenario run on concrete form values.\<close>

lemma trim_examples:
  "trim (js ''Ann Lee'') = js ''Ann Lee''" "trim (js ''1001'') = js ''1001''"
  "trim (js ''a@b.com'') = js ''a@b.com''" "trim (js ''1234567890'') = js ''1234567890''"
  "trim (js ''Bob Ray'') = js ''Bob Ray''" "trim (js ''1002'') = js ''1002''"
  "trim (js ''bob@c.org'') = js ''bob@c.org''" "trim (js ''0987654321'') = js ''0987654321''"
  by (simp_all add: trim_def js_def is_space_def)

lemma validate_examples:
  "validateName (js ''Ann Lee'') = []" "validateSID (js ''1001'') = []"
  "validateEmail (js ''a@b.com'') = []" "validateContact (js ''1234567890'') = []"
  "validateName (js ''Bob Ray'') = []" "validateSID (js ''1002'') = []"
  "validateEmail (js ''bob@c.org'') = []" "validateContact (js ''0987654321'') = []"
  by (simp_all add: validateName_def validateSID_def validateEmail_def validateContact_def
      trim_def js_def is_space_def is_letter_def is_digit_def re_letters_spaces_def re_digits_def
      re_email_def email_unit_def)

lemma valid_form_fill_form:
  "valid_form (fill_form d st) \<longleftrightarrow>
     validateName (data_name d) = [] \<and> validateSID (data_sid d) = [] \<and>
     validateEmail (data_email d) = [] \<and> validateContact (data_contact d) = []"
  by (simp add: valid_form_iff fill_form_def)

lemma valid_form_examples [simp]:
  "valid_form (fill_form ann st)" "valid_form (fill_form bob st)"
  "valid_form (fill_form (bob\<lparr>data_sid := js ''1001''\<rparr>) st)"
  "valid_form (fill_form (ann\<lparr>data_sid := js ''1002''\<rparr>) st)"
  by (simp_all add: valid_form_fill_form ann_def bob_def validate_examples)


section \<open>Uniqueness of student ids along a run\<close>

lemma digits36_not_Nil: "digits36 n \<noteq> []"
  by (subst digits36.simps) simp

lemma digits36_small: "n < 36 \<Longrightarrow> digits36 n = [digit36 n]"
  by (subst digits36.simps) simp

lemma new_id_not_Nil: "new_id now rnd \<noteq> []"
  by (simp add: new_id_def toString36_def digits36_not_Nil)

lemma list_all_has_id_not_nullish: "list_all has_id xs \<Longrightarrow> \<not> list_ex nullish xs"
  by (auto simp: list_all_iff list_ex_iff has_id_not_nullish)

lemma unique_roster_filter:
  "unique_roster xs \<Longrightarrow> unique_roster (filter Q xs)"
  by (auto simp: unique_roster_def ids_def sids_def list_all_iff distinct_map_filter)

lemma ids_append [simp]: "ids (xs @ ys) = ids xs @ ids ys"
  by (simp add: ids_def)

lemma sids_append [simp]: "sids (xs @ ys) = sids xs @ sids ys"
  by (simp add: sids_def)

lemma unique_roster_add:
  assumes "unique_roster xs" and "i \<noteq> []" and "JStr i \<notin> set (ids xs)"
    and "JStr (data_sid d) \<notin> set (sids xs)"
  shows "unique_roster (xs @ [mk_record i d])"
  using assms by (simp add: unique_roster_def ids_def sids_def)

lemma distinct_list_update_other:
  assumes "distinct ys" and "\<forall>j<length ys. j \<noteq> k \<longrightarrow> ys ! j \<noteq> v"
  shows "distinct (ys[k := v])"
  unfolding distinct_conv_nth
proof (intro allI impI)
  fix a b
  assume "a < length (ys[k := v])" and "b < length (ys[k := v])" and ab: "a \<noteq> b"
  then have a: "a < length ys" and b: "b < length ys" by simp_all
  show "ys[k := v] ! a \<noteq> ys[k := v] ! b"
  proof (cases "a = k")
    case True
    then have "b \<noteq> k" using ab by simp
    then have "ys ! b \<noteq> v" using assms(2) b by blast
    moreover have "ys[k := v] ! a = v" using True a by simp
    moreover have "ys[k := v] ! b = ys ! b" using \<open>b \<noteq> k\<close> by simp
    ultimately show ?thesis by simp
  next
    case False
    then have na: "ys[k := v] ! a = ys ! a" by simp
    show ?thesis
    proof (cases "b = k")
      case True
      have "ys ! a \<noteq> v" using assms(2) a False by blast
      moreover have "ys[k := v] ! b = v" using True b by simp
      ultimately show ?thesis using na by simp
    next
      case bk: False
      then have "ys[k := v] ! b = ys ! b" by simp
      moreover have "ys ! a \<noteq> ys ! b" using assms(1) a b ab by (simp add: distinct_conv_nth)
      ultimately show ?thesis using na by simp
    qed
  qed
qed

lemma unique_roster_update:
  assumes u: "unique_roster xs" and i: "i \<noteq> []" and k: "k < length xs"
    and ik: "field_of (xs ! k) (js ''id'') = JStr i"
    and dup: "\<forall>s\<in>set xs. field_of s (js ''sid'') = JStr (data_sid d) \<longrightarrow> field_of s (js ''id'') = JStr i"
  shows "unique_roster (xs[k := mk_record i d])"
proof -
  have all: "list_all has_id (xs[k := mk_record i d])"
    using u i by (auto simp: unique_roster_def list_all_iff dest!: set_update_subset_insert[THEN subsetD])
  have "ids (xs[k := mk_record i d]) = (ids xs)[k := JStr i]"
    by (simp add: ids_def map_update)
  also have "\<dots> = ids xs" using k ik by (simp add: ids_def list_update_same_conv)
  finally have di: "distinct (ids (xs[k := mk_record i d]))"
    using u by (simp add: unique_roster_def)
  have other: "\<forall>j<length (sids xs). j \<noteq> k \<longrightarrow> sids xs ! j \<noteq> JStr (data_sid d)"
  proof (intro allI impI)
    fix j assume j: "j < length (sids xs)" and jk: "j \<noteq> k"
    show "sids xs ! j \<noteq> JStr (data_sid d)"
    proof
      assume "sids xs ! j = JStr (data_sid d)"
      then have "field_of (xs ! j) (js ''sid'') = JStr (data_sid d)" using j by (simp add: sids_def)
      moreover have "xs ! j \<in> set xs" using j by (simp add: sids_def)
      ultimately have "field_of (xs ! j) (js ''id'') = JStr i" using dup by blast
      then have "ids xs ! j = ids xs ! k" using ik j k by (simp add: ids_def sids_def)
      moreover have "distinct (ids xs)" using u by (simp add: unique_roster_def)
      ultimately show False using j k jk by (simp add: distinct_conv_nth ids_def sids_def)
    qed
  qed
  have "sids (xs[k := mk_record i d]) = (sids xs)[k := JStr (data_sid d)]"
    by (simp add: sids_def map_update)
  then have ds: "distinct (sids (xs[k := mk_record i d]))"
    using distinct_list_update_other[OF _ other] u by (simp add: unique_roster_def)
  show ?thesis using all di ds by (simp add: unique_roster_def)
qed

lemma students_updateStudent:
  "students (state_of (updateStudent P i d st)) =
     (case findIndex_id (students st) i of
        Inr (Some k) \<Rightarrow> (students st)[k := mk_record i d]
      | _ \<Rightarrow> students st)"
  by (simp add: updateStudent_def saveToStorage_def Let_def split: sum.splits option.splits)

lemma students_deleteStudent:
  "\<not> list_ex nullish (students st) \<Longrightarrow>
   students (state_of (deleteStudent P i c st)) =
     (if c then filter (\<lambda>s. field_of s (js ''id'') \<noteq> JStr i) (students st) else students st)"
  by (simp add: deleteStudent_def filter_not_id_records saveToStorage_def Let_def)

lemma students_startEdit [simp]: "students (state_of (startEdit P i st)) = students st"
  by (simp add: startEdit_def Let_def split: sum.splits option.splits)

lemma students_input [simp]: "students (input f v st) = students st"
  by (cases f) simp_all

lemma students_clearForm [simp]: "students (clearForm st) = students st"
  by (simp add: clearForm_def showErrors_def)

lemma students_showErrors [simp]: "students (showErrors a b c d st) = students st"
  by (simp add: showErrors_def)

lemma unique_roster_submit:
  assumes u: "unique_roster (students st)"
    and fresh: "adds st \<longrightarrow> JStr (new_id now rnd) \<notin> set (ids (students st))"
  shows "unique_roster (students (state_of (submit P now rnd st)))"
proof (cases "valid_form st")
  case False
  then show ?thesis using u by (simp add: submit_invalid)
next
  case True
  let ?xs = "students st"
  let ?sid = "trim (sidInput st)"
  let ?d = "\<lparr>data_name = trim (nameInput st), data_sid = ?sid,
             data_email = trim (emailInput st), data_contact = trim (contactInput st)\<rparr>"
  have all: "list_all has_id ?xs" using u by (simp add: unique_roster_def)
  have nn: "\<not> list_ex nullish ?xs" using all by (rule list_all_has_id_not_nullish)
  note dup = some_duplicate_records[OF nn, of ?sid "editingId st"]
  show ?thesis
  proof (cases "\<exists>s\<in>set ?xs. field_of s (js ''sid'') = JStr ?sid \<and>
                  field_of s (js ''id'') \<noteq> editing_val (editingId st)")
    case True
    then have "some_duplicate ?xs ?sid (editingId st) = Inr True"
      unfolding dup by simp
    then show ?thesis using u \<open>valid_form st\<close> by (simp add: submit_valid)
  next
    case nodup: False
    have dupF: "some_duplicate ?xs ?sid (editingId st) = Inr False"
      unfolding dup using nodup by simp
    have sv: "submit P now rnd st =
        (if adding st then then_clearForm (addStudent P now rnd ?d st)
         else then_clearForm (updateStudent P (the (editingId st)) ?d st))"
      using dupF by (simp add: submit_valid[OF True] Let_def)
    show ?thesis
    proof (cases "adding st")
      case True
      have "JStr ?sid \<notin> set (sids ?xs)"
      proof
        assume "JStr ?sid \<in> set (sids ?xs)"
        then obtain s where s: "s \<in> set ?xs" "field_of s (js ''sid'') = JStr ?sid"
          by (auto simp: in_sids_iff)
        then have e: "field_of s (js ''id'') = editing_val (editingId st)" using nodup by blast
        have "has_id s" using all s(1) by (simp add: list_all_iff)
        then show False using e True
          by (auto simp: has_id_def adding_def editing_val_def split: option.splits jsval.splits)
      qed
      moreover have "adds st" using \<open>valid_form st\<close> dupF True by (simp add: adds_def)
      ultimately have "unique_roster (?xs @ [mk_record (new_id now rnd) ?d])"
        using unique_roster_add[OF u new_id_not_Nil, of now rnd ?d] fresh by simp
      then show ?thesis
        using True by (simp add: sv)
    next
      case False
      then obtain i where i: "editingId st = Some i" "i \<noteq> []"
        by (auto simp: adding_def split: option.splits)
      have sub: "students (state_of (submit P now rnd st)) =
          (case findIndex_id ?xs i of Inr (Some k) \<Rightarrow> ?xs[k := mk_record i ?d] | _ \<Rightarrow> ?xs)"
        using False i by (simp add: sv students_updateStudent)
      show ?thesis
      proof (cases "JStr i \<in> set (ids ?xs)")
        case True
        from findIndex_id_some[OF nn True] obtain k where k:
          "findIndex_id ?xs i = Inr (Some k)" "k < length ?xs"
          "field_of (?xs ! k) (js ''id'') = JStr i"
          by blast
        have d: "\<forall>s\<in>set ?xs. field_of s (js ''sid'') = JStr (data_sid ?d) \<longrightarrow>
                   field_of s (js ''id'') = JStr i"
          using nodup i by (auto simp: editing_val_def)
        show ?thesis
          using unique_roster_update[OF u i(2) k(2,3) d] by (simp add: sub k(1))
      next
        case False
        then show ?thesis using u by (simp add: sub findIndex_id_none[OF nn False])
      qed
    qed
  qed
qed

lemma unique_roster_handle:
  assumes "unique_roster (students st)"
    and "fresh_ids P (ev # evs) st"
  shows "unique_roster (students (state_of (handle P ev st)))"
proof (cases ev)
  case (Submit now rnd)
  then show ?thesis using assms unique_roster_submit[of st now rnd P] by simp
next
  case (DeleteClick i c)
  have "\<not> list_ex nullish (students st)"
    using assms(1) by (simp add: unique_roster_def list_all_has_id_not_nullish)
  then show ?thesis
    using assms(1) DeleteClick by (simp add: students_deleteStudent unique_roster_filter)
qed (use assms in simp_all)

lemma unique_roster_run:
  "unique_roster (students st) \<Longrightarrow> fresh_ids P evs st \<Longrightarrow> unique_roster (students (run P evs st))"
proof (induction evs arbitrary: st)
  case Nil
  then show ?case by simp
next
  case (Cons ev evs)
  have "unique_roster (students (state_of (handle P ev st)))"
    using Cons.prems by (rule unique_roster_handle)
  moreover have "fresh_ids P evs (state_of (handle P ev st))" using Cons.prems(2) by simp
  ultimately show ?case using Cons.IH by simp
qed

text \<open>
  C1. Uniqueness of the sid along a run, for rosters with unique ids. Start from a
  roster of records whose ids are non-empty strings, in which no two records share
  their id and no two share their sid, and let the user type,
  submit, clear, start edits and delete in any order, every id that \<open>addStudent\<close>
  generates being different from the ids in the roster at that moment. Then no two
  records of the resulting roster share their sid.
\<close>

theorem sid_unique_along_run:
  assumes "list_all has_id (students st)" and "distinct (ids (students st))"
    and "distinct (sids (students st))" and "fresh_ids P evs st"
  shows "distinct (sids (students (run P evs st)))"
proof -
  have "unique_roster (students st)" using assms(1,2,3) by (simp add: unique_roster_def)
  then have "unique_roster (students (run P evs st))" using assms(4) by (rule unique_roster_run)
  then show ?thesis by (simp add: unique_roster_def)
qed

lemma new_id_example: "new_id 1 (js ''0.abc'') = js ''1abc''"
  by (simp add: new_id_def toString36_def digits36_small digit36_def js_def)

theorem sid_unique_along_run_witness:
  "list_all has_id (students (fill_form bob (page_with [mk_record (js ''a'') ann]))) \<and>
   distinct (ids (students (fill_form bob (page_with [mk_record (js ''a'') ann])))) \<and>
   distinct (sids (students (fill_form bob (page_with [mk_record (js ''a'') ann])))) \<and>
   fresh_ids plain_platform [Submit 1 (js ''0.abc''), DeleteClick (js ''a'') True]
     (fill_form bob (page_with [mk_record (js ''a'') ann])) \<and>
   distinct (sids (students (run plain_platform [Submit 1 (js ''0.abc''), DeleteClick (js ''a'') True]
     (fill_form bob (page_with [mk_record (js ''a'') ann])))))"
proof -
  let ?st = "fill_form bob (page_with [mk_record (js ''a'') ann])"
  have s: "students ?st = [mk_record (js ''a'') ann]" by (simp add: fill_form_def)
  have a: "list_all has_id (students ?st)" by (simp add: s)
  have b: "distinct (ids (students ?st))" by (simp add: s ids_def)
  have c: "distinct (sids (students ?st))" by (simp add: s sids_def)
  have d: "fresh_ids plain_platform [Submit 1 (js ''0.abc''), DeleteClick (js ''a'') True] ?st"
    by (simp add: s ids_def new_id_example)
  show ?thesis using a b c d sid_unique_along_run[OF a b c d] by blast
qed

text \<open>
  The claim as the specification states it asks only that no two records of the first
  roster share their sid. With two records of the same id, editing that id passes the
  duplicate check for the sid of the second record, and the update of the first record
  leaves two records with the sid 1002.
\<close>

theorem sid_unique_counterexample:
  "distinct (sids (students (page_with [mk_record (js ''a'') ann, mk_record (js ''a'') bob]))) \<and>
   students (run plain_platform [EditClick (js ''a''), Type Sid (js ''1002''), Submit 5 (js ''0.xyz'')]
      (page_with [mk_record (js ''a'') ann, mk_record (js ''a'') bob])) =
     [mk_record (js ''a'') (ann\<lparr>data_sid := js ''1002''\<rparr>), mk_record (js ''a'') bob] \<and>
   \<not> distinct (sids (students
      (run plain_platform [EditClick (js ''a''), Type Sid (js ''1002''), Submit 5 (js ''0.xyz'')]
        (page_with [mk_record (js ''a'') ann, mk_record (js ''a'') bob]))))"
proof -
  let ?xs = "[mk_record (js ''a'') ann, mk_record (js ''a'') bob]"
  let ?st0 = "page_with ?xs"
  let ?st1 = "?st0\<lparr>editingId := Some (js ''a''), nameInput := js ''Ann Lee'', sidInput := js ''1001'',
                     emailInput := js ''a@b.com'', contactInput := js ''1234567890'',
                     saveBtn := js ''Update''\<rparr>"
  let ?st2 = "?st1\<lparr>sidInput := js ''1002''\<rparr>"
  have start: "distinct (sids (students ?st0))"
    by (simp add: sids_def ann_def bob_def)
  have e1: "startEdit plain_platform (js ''a'') ?st0 = Returned ?st1"
    by (simp add: startEdit_def input_value_def ann_def)
  have dig: "filter is_digit (js ''1002'') = js ''1002''"
    by (simp add: js_def is_digit_def)
  have e2: "input Sid (js ''1002'') ?st1 = ?st2" by (simp add: dig)
  have f: "nameInput ?st2 = js ''Ann Lee''" "sidInput ?st2 = js ''1002''"
    "emailInput ?st2 = js ''a@b.com''" "contactInput ?st2 = js ''1234567890''"
    "students ?st2 = ?xs" "editingId ?st2 = Some (js ''a'')"
    by simp_all
  have v: "valid_form ?st2"
    unfolding valid_form_iff f by (simp add: validate_examples)
  have dup: "some_duplicate (students ?st2) (trim (sidInput ?st2)) (editingId ?st2) = Inr False"
    unfolding f by (simp add: trim_examples editing_val_def ann_def bob_def)
  have na: "\<not> adding ?st2" unfolding adding_def f by simp
  have sub: "students (state_of (submit plain_platform 5 (js ''0.xyz'') ?st2)) =
      [mk_record (js ''a'') (ann\<lparr>data_sid := js ''1002''\<rparr>), mk_record (js ''a'') bob]"
    unfolding submit_valid[OF v] dup using na
    by (simp add: Let_def students_updateStudent f trim_examples ann_def)
  have run: "run plain_platform [EditClick (js ''a''), Type Sid (js ''1002''), Submit 5 (js ''0.xyz'')] ?st0 =
      state_of (submit plain_platform 5 (js ''0.xyz'') ?st2)"
    by (simp add: e1 e2 del: input.simps)
  show ?thesis
    unfolding run sub using start by (simp add: sids_def bob_def)
qed

text \<open>
  Two records with one id also arise without any stored data, when two submits in Add
  mode get the same time and the same random string.
\<close>

lemma same_generated_id:
  "ids (students (run plain_platform [Submit 1 (js ''0.abc''), Type Name (js ''Bob Ray''),
       Type Sid (js ''1002''), Type Email (js ''bob@c.org''), Type Contact (js ''0987654321''),
       Submit 1 (js ''0.abc'')] (fill_form ann (fresh_page Map.empty)))) =
   [JStr (js ''1abc''), JStr (js ''1abc'')]"
proof -
  let ?st = "fill_form ann (fresh_page Map.empty)"
  have s0: "students ?st = []" "editingId ?st = None" by (simp_all add: fill_form_def fresh_page_def)
  have a0: "adding ?st" by (simp add: adding_def s0)
  have d0: "some_duplicate (students ?st) (trim (sidInput ?st)) (editingId ?st) = Inr False"
    by (simp add: s0)
  have v0: "valid_form ?st" by simp
  let ?d = "\<lparr>data_name = trim (nameInput ?st), data_sid = trim (sidInput ?st),
             data_email = trim (emailInput ?st), data_contact = trim (contactInput ?st)\<rparr>"
  have sub1: "submit plain_platform 1 (js ''0.abc'') ?st =
      then_clearForm (addStudent plain_platform 1 (js ''0.abc'') ?d ?st)"
    unfolding submit_valid[OF v0] d0 using a0 by (simp add: Let_def)
  define st1 where "st1 = state_of (submit plain_platform 1 (js ''0.abc'') ?st)"
  have s1: "students st1 = [mk_record (js ''1abc'') ?d]" "editingId st1 = None"
    unfolding st1_def sub1
    by (simp_all add: s0 new_id_example addStudent_records clearForm_def showErrors_def)
  have fl: "filter (\<lambda>c. is_letter c \<or> is_space c) (js ''Bob Ray'') = js ''Bob Ray''"
    "filter is_digit (js ''1002'') = js ''1002''" "filter is_digit (js ''0987654321'') = js ''0987654321''"
    by (simp_all add: js_def is_digit_def is_letter_def is_space_def)
  define st2 where "st2 = run plain_platform [Type Name (js ''Bob Ray''), Type Sid (js ''1002''),
      Type Email (js ''bob@c.org''), Type Contact (js ''0987654321'')] st1"
  have st2: "st2 = fill_form bob st1"
    unfolding st2_def by (simp add: fl fill_form_def bob_def)
  have s2: "students st2 = students st1" "editingId st2 = None" "sidInput st2 = js ''1002''"
    by (simp_all add: st2 fill_form_def s1 bob_def)
  have v2: "valid_form st2" by (simp add: st2)
  have a2: "adding st2" by (simp add: adding_def s2)
  have d2: "some_duplicate (students st2) (trim (sidInput st2)) (editingId st2) = Inr False"
    unfolding s2 s1 by (simp add: trim_examples fill_form_def ann_def)
  have sub2: "students (state_of (submit plain_platform 1 (js ''0.abc'') st2)) =
      students st2 @ [mk_record (new_id 1 (js ''0.abc'')) \<lparr>data_name = trim (nameInput st2),
         data_sid = trim (sidInput st2), data_email = trim (emailInput st2),
         data_contact = trim (contactInput st2)\<rparr>]"
    unfolding submit_valid[OF v2] d2 using a2 by (simp add: Let_def)
  have "run plain_platform [Submit 1 (js ''0.abc''), Type Name (js ''Bob Ray''),
       Type Sid (js ''1002''), Type Email (js ''bob@c.org''), Type Contact (js ''0987654321''),
       Submit 1 (js ''0.abc'')] ?st = state_of (submit plain_platform 1 (js ''0.abc'') st2)"
    unfolding st2_def st1_def by simp
  then show ?thesis
    by (simp add: sub2 s2 s1 ids_def new_id_example)
qed

text \<open>
  The ids have to be non-empty as well. An empty id is falsy, so that after starting an
  edit of the record with the empty id the submit handler takes the Add branch, while the
  duplicate check has skipped that record: a second record with the sid 1001 is added.
\<close>

lemma empty_id_example:
  "sids (students (run plain_platform [EditClick [], Submit 1 (js ''0.abc'')]
       (page_with [mk_record [] ann]))) =
   [JStr (js ''1001''), JStr (js ''1001'')]"
proof -
  let ?st0 = "page_with [mk_record [] ann]"
  let ?st1 = "?st0\<lparr>editingId := Some [], nameInput := js ''Ann Lee'', sidInput := js ''1001'',
                     emailInput := js ''a@b.com'', contactInput := js ''1234567890'',
                     saveBtn := js ''Update''\<rparr>"
  have e1: "startEdit plain_platform [] ?st0 = Returned ?st1"
    by (simp add: startEdit_def input_value_def ann_def)
  have f: "nameInput ?st1 = js ''Ann Lee''" "sidInput ?st1 = js ''1001''"
    "emailInput ?st1 = js ''a@b.com''" "contactInput ?st1 = js ''1234567890''"
    "students ?st1 = [mk_record [] ann]" "editingId ?st1 = Some []"
    by simp_all
  have v: "valid_form ?st1"
    unfolding valid_form_iff f by (simp add: validate_examples)
  have dup: "some_duplicate (students ?st1) (trim (sidInput ?st1)) (editingId ?st1) = Inr False"
    unfolding f by (simp add: trim_examples editing_val_def ann_def)
  have ad: "adding ?st1" unfolding adding_def f by simp
  have sub: "students (state_of (submit plain_platform 1 (js ''0.abc'') ?st1)) =
      [mk_record [] ann, mk_record (js ''1abc'') ann]"
    unfolding submit_valid[OF v] dup using ad
    by (simp add: Let_def f trim_examples ann_def new_id_example)
  have run: "run plain_platform [EditClick [], Submit 1 (js ''0.abc'')] ?st0 =
      state_of (submit plain_platform 1 (js ''0.abc'') ?st1)"
    by (simp add: e1)
  show ?thesis unfolding run sub by (simp add: sids_def ann_def)
qed

section \<open>The email pattern\<close>

text \<open>
  \<open>re_email\<close> accepts exactly the strings that the pattern describes: three non-empty
  groups of code units that are neither white space nor the at sign, the first two
  separated by an at sign and the last two by a dot.
\<close>

lemma email_unit_dot: "email_unit 46" and not_email_unit_at: "\<not> email_unit 64"
  by (simp_all add: email_unit_def is_space_def)

lemma re_email_iff:
  "re_email s \<longleftrightarrow>
     (\<exists>a b c. s = a @ [64] @ b @ [46] @ c \<and> a \<noteq> [] \<and> b \<noteq> [] \<and> c \<noteq> [] \<and>
        list_all email_unit a \<and> list_all email_unit b \<and> list_all email_unit c)"
proof
  assume r: "re_email s"
  define a where "a = takeWhile email_unit s"
  have "\<exists>host. dropWhile email_unit s = 64 # host \<and> list_all email_unit host \<and>
      46 \<in> set (butlast (tl host)) \<and> takeWhile email_unit s \<noteq> []"
    using r unfolding re_email_def Let_def
    by (cases "dropWhile email_unit s") simp_all
  then obtain host where rest: "dropWhile email_unit s = 64 # host"
    and host: "list_all email_unit host" and dot: "46 \<in> set (butlast (tl host))"
    and a: "a \<noteq> []"
    unfolding a_def by blast
  have s: "s = a @ 64 # host"
    using takeWhile_dropWhile_id[of email_unit s] by (simp add: a_def rest)
  from dot obtain u w where uw: "butlast (tl host) = u @ 46 # w" by (auto dest: split_list)
  then have tl_ne: "tl host \<noteq> []" by auto
  have "butlast (tl host) @ [last (tl host)] = tl host"
    using tl_ne by (rule append_butlast_last_id)
  then obtain l where tlh: "tl host = (u @ 46 # w) @ [l]" unfolding uw by metis
  obtain x where hx: "host = x # tl host" using tl_ne by (cases host) auto
  have "host = (x # u) @ [46] @ (w @ [l])"
    by (subst hx) (simp add: tlh)
  then obtain b c where h: "host = b @ [46] @ c" and bc: "b \<noteq> []" "c \<noteq> []"
    by blast
  have "list_all email_unit b" "list_all email_unit c"
    using host unfolding h by simp_all
  moreover have "list_all email_unit a"
    by (auto simp: a_def list_all_iff dest: set_takeWhileD)
  moreover have "s = a @ [64] @ b @ [46] @ c"
    using s h by simp
  ultimately show "\<exists>a b c. s = a @ [64] @ b @ [46] @ c \<and> a \<noteq> [] \<and> b \<noteq> [] \<and> c \<noteq> [] \<and>
        list_all email_unit a \<and> list_all email_unit b \<and> list_all email_unit c"
    using a bc by blast
next
  assume "\<exists>a b c. s = a @ [64] @ b @ [46] @ c \<and> a \<noteq> [] \<and> b \<noteq> [] \<and> c \<noteq> [] \<and>
        list_all email_unit a \<and> list_all email_unit b \<and> list_all email_unit c"
  then obtain a b c where s: "s = a @ [64] @ b @ [46] @ c" and ne: "a \<noteq> []" "b \<noteq> []" "c \<noteq> []"
    and ok: "list_all email_unit a" "list_all email_unit b" "list_all email_unit c"
    by blast
  have tw: "takeWhile email_unit s = a"
    unfolding s using ok(1) not_email_unit_at by (simp add: takeWhile_append2 list_all_iff)
  have dw: "dropWhile email_unit s = 64 # (b @ 46 # c)"
    unfolding s using ok(1) not_email_unit_at by (simp add: dropWhile_append2 list_all_iff)
  have "tl (b @ 46 # c) = tl b @ 46 # c" using ne(2) by simp
  moreover have "butlast (tl b @ 46 # c) = tl b @ 46 # butlast c" using ne(3) by (simp add: butlast_append)
  ultimately have "46 \<in> set (butlast (tl (b @ 46 # c)))" by simp
  moreover have "list_all email_unit (b @ 46 # c)" using ok email_unit_dot by simp
  ultimately show "re_email s"
    using ne(1) by (simp add: re_email_def Let_def tw dw del: butlast.simps)
qed

end
